theory Spec2Isabelle
  imports Main "HOL-Library.Sublist" "HOL-Library.Monad_Syntax"
begin

section \<open>JavaScript strings\<close>

text \<open>
  A JavaScript string is modelled as a \<^typ>\<open>string\<close>: the list of its code units, each taken
  to be below 256 (the Latin-1 rng). On that rng \<open>toLowerCase\<close> moves \<open>A\<close>--\<open>Z\<close> and
  the accented capitals \<open>0xC0\<close>--\<open>0xDE\<close> (without the multiplication sign \<open>0xD7\<close>) up by 32,
  the white space of \<open>trim\<close> and of the regular expression class \<open>\s\<close> is
  tab, line feed, vertical tab, form feed, carriage return, space and no-break space,
  \<open>\d\<close> is \<open>0\<close>--\<open>9\<close> and \<open>\w\<close> is \<open>[A-Za-z0-9_]\<close>.
\<close>

definition isSpace :: "char \<Rightarrow> bool" where
  "isSpace c \<longleftrightarrow>
     c \<in> {CHR 0x09, CHR 0x0A, CHR 0x0B, CHR 0x0C, CHR 0x0D, CHR 0x20, CHR 0xA0}"

definition isDigit :: "char \<Rightarrow> bool" where
  "isDigit c \<longleftrightarrow> (let n = (of_char c :: nat) in 48 \<le> n \<and> n \<le> 57)"

definition isWordChar :: "char \<Rightarrow> bool" where
  "isWordChar c \<longleftrightarrow>
     (let n = (of_char c :: nat)
      in (48 \<le> n \<and> n \<le> 57) \<or> (65 \<le> n \<and> n \<le> 90) \<or> n = 95 \<or> (97 \<le> n \<and> n \<le> 122))"

definition isLineTerminator :: "char \<Rightarrow> bool" where
  "isLineTerminator c \<longleftrightarrow> c = CHR 0x0A \<or> c = CHR 0x0D"

definition isUpper :: "char \<Rightarrow> bool" where
  "isUpper c \<longleftrightarrow>
     (let n = (of_char c :: nat)
      in (65 \<le> n \<and> n \<le> 90) \<or> (192 \<le> n \<and> n \<le> 222 \<and> n \<noteq> 215))"

definition toLowerChar :: "char \<Rightarrow> char" where
  "toLowerChar c = (if isUpper c then char_of (of_char c + (32::nat)) else c)"

definition toLowerCase :: "string \<Rightarrow> string" where
  "toLowerCase s = map toLowerChar s"

definition trim :: "string \<Rightarrow> string" where
  "trim s = rev (dropWhile isSpace (rev (dropWhile isSpace s)))"

text \<open>
  \<open>s.startsWith(t)\<close> is \<^term>\<open>prefix t s\<close>; \<open>s.includes(t)\<close> holds when \<open>t\<close> occurs in \<open>s\<close> as
  a contiguous piece.
\<close>

definition js_includes :: "string \<Rightarrow> string \<Rightarrow> bool" where
  "js_includes s t \<longleftrightarrow> sublist t s"

text \<open>
  A literal of a case-insensitive pattern (flag \<open>i\<close>) matches a code unit when both have the
  same canonical form, which on the Latin-1 rng is equality after \<^const>\<open>toLowerChar\<close>.
\<close>

definition ciEq :: "char \<Rightarrow> char \<Rightarrow> bool" where
  "ciEq a b \<longleftrightarrow> toLowerChar a = toLowerChar b"

fun ciPrefix :: "string \<Rightarrow> string \<Rightarrow> bool" where
  "ciPrefix [] s = True"
| "ciPrefix (p # ps) [] = False"
| "ciPrefix (p # ps) (c # cs) = (ciEq p c \<and> ciPrefix ps cs)"

text \<open>The leftmost match of a pattern: the matcher is tried at index 0, 1, ... up to the length.\<close>

fun firstMatch :: "(string \<Rightarrow> 'a option) \<Rightarrow> string \<Rightarrow> 'a option" where
  "firstMatch m [] = m []"
| "firstMatch m (c # cs) = (case m (c # cs) of Some r \<Rightarrow> Some r | None \<Rightarrow> firstMatch m cs)"

text \<open>\<open>regex.test(s)\<close>: the pattern matches at some index.\<close>

fun anywhere :: "(string \<Rightarrow> bool) \<Rightarrow> string \<Rightarrow> bool" where
  "anywhere P [] = P []"
| "anywhere P (c # cs) = (P (c # cs) \<or> anywhere P cs)"

text \<open>Decimal rendering of a non-negative integer, as \<open>String(n)\<close> gives it.\<close>

fun showNat :: "nat \<Rightarrow> string" where
  "showNat n = (if n < 10 then [char_of (48 + n)] else showNat (n div 10) @ [char_of (48 + n mod 10)])"

declare showNat.simps [simp del]


section \<open>Word count (\<open>countWords\<close>, openai.js)\<close>

text \<open>
  \<open>text.split(/\s+/)\<close>: the pieces between the maximal runs of white space. A run at the very
  start or end leaves an empty first or last piece, and the empty string splits into one empty
  piece.
\<close>

function splitWhitespace :: "string \<Rightarrow> string list" where
  "splitWhitespace s =
     (let piece = takeWhile (\<lambda>c. \<not> isSpace c) s;
          rest = dropWhile (\<lambda>c. \<not> isSpace c) s
      in if rest = [] then [piece] else piece # splitWhitespace (dropWhile isSpace rest))"
  by pat_completeness auto
termination
proof (relation "measure length")
  fix s :: string and piece rest
  assume r: "rest = dropWhile (\<lambda>c. \<not> isSpace c) s" and ne: "rest \<noteq> []"
  from ne obtain c cs where rc: "rest = c # cs" by (cases rest) auto
  have "isSpace c" using r rc by (auto simp: dropWhile_eq_Cons_conv dest: sym)
  then have "length (dropWhile isSpace rest) \<le> length cs"
    using rc by (simp add: length_dropWhile_le)
  moreover have "length rest \<le> length s" using r by (simp add: length_dropWhile_le)
  ultimately show "(dropWhile isSpace rest, s) \<in> measure length" using rc by simp
qed simp

declare splitWhitespace.simps [simp del]

definition countWords :: "string \<Rightarrow> nat" where
  "countWords text = length (filter (\<lambda>word. length word > 0) (splitWhitespace text))"

text \<open>
  The specification's wording, for comparison: the number of white-space delimited non-empty
  tokens is the number of indices at which a token starts.
\<close>

definition tokenStarts :: "string \<Rightarrow> nat set" where
  "tokenStarts s = {i. i < length s \<and> \<not> isSpace (s ! i) \<and> (i = 0 \<or> isSpace (s ! (i - 1)))}"


section \<open>Prompt variables (\<open>applyPromptVariables\<close>, openai.js)\<close>

text \<open>
  \<open>String.prototype.replace\<close> with a string as replacement expands the dollar patterns of the
  replacement at every match. The patterns \<open>\{keyword\}\<close> and \<open>\{minWords\}\<close> have no capture
  group, so \<open>$$\<close> gives a dollar sign, \<open>$&\<close> the matched text, \<open>$`\<close> the text preceding the match,
  \<open>$'\<close> the text following it, and every other dollar sign stands for itself.
\<close>

fun getSubstitution :: "string \<Rightarrow> string \<Rightarrow> string \<Rightarrow> string \<Rightarrow> string" where
  "getSubstitution matched preceding following [] = []"
| "getSubstitution matched preceding following [c] = [c]"
| "getSubstitution matched preceding following (c # d # rest) =
     (if c = CHR ''$'' \<and> d = CHR ''$'' then CHR ''$'' # getSubstitution matched preceding following rest
      else if c = CHR ''$'' \<and> d = CHR ''&'' then matched @ getSubstitution matched preceding following rest
      else if c = CHR ''$'' \<and> d = CHR 0x60 then preceding @ getSubstitution matched preceding following rest
      else if c = CHR ''$'' \<and> d = CHR 0x27 then following @ getSubstitution matched preceding following rest
      else c # getSubstitution matched preceding following (d # rest))"

text \<open>
  \<open>result.replace(new RegExp(`\\{${key}\\}`, 'g'), value)\<close> for a key of letters: every match
  of the literal token \<open>{key}\<close>, leftmost first and without overlap, is replaced; \<open>preceding\<close> is
  the part of the subject already passed.
\<close>

function replaceToken :: "string \<Rightarrow> string \<Rightarrow> string \<Rightarrow> string \<Rightarrow> string" where
  "replaceToken key val preceding s =
     (let token = ''{'' @ key @ ''}''
      in if s = [] then []
         else if prefix token s
         then getSubstitution token preceding (drop (length token) s) val
              @ replaceToken key val (preceding @ token) (drop (length token) s)
         else hd s # replaceToken key val (preceding @ [hd s]) (tl s))"
  by pat_completeness auto
termination
  by (relation "measure (\<lambda>(key, val, preceding, s). length s)") auto

declare replaceToken.simps [simp del]

text \<open>
  \<open>variables\<close> is the list of the object's entries in insertion order; the replacement value
  is the entry's value converted to a string (a number by \<open>String\<close>).
\<close>

definition applyPromptVariables :: "string \<Rightarrow> (string \<times> string) list \<Rightarrow> string" where
  "applyPromptVariables template variables =
     fold (\<lambda>(key, val) result. replaceToken key val [] result) variables template"

text \<open>Joining pieces with a separator, to say what a replace-all does.\<close>

fun joinWith :: "string \<Rightarrow> string list \<Rightarrow> string" where
  "joinWith sep [] = []"
| "joinWith sep (g # gs) = g @ concat (map (\<lambda>h. sep @ h) gs)"


section \<open>Pieces of regular expressions\<close>

text \<open>
  The patterns of the source are written with a few matchers on the rest of the subject.
  A greedy run (\<open>\s+\<close>, \<open>\s*\<close>, \<open>\d+\<close>) is taken at its full length only: in every
  pattern below the element after such a run cannot start with a code unit of the run's
  class, so giving back part of the run never leads to a match. An optional group
  \<open>(?:p)?\<close> is tried with the group first and then without it.
\<close>

definition litCI :: "string \<Rightarrow> string \<Rightarrow> string option" where
  "litCI p s = (if ciPrefix p s then Some (drop (length p) s) else None)"

definition spaces1 :: "string \<Rightarrow> string option" where
  "spaces1 s = (if s \<noteq> [] \<and> isSpace (hd s) then Some (dropWhile isSpace s) else None)"

definition digits1 :: "string \<Rightarrow> (string \<times> string) option" where
  "digits1 s =
     (let d = takeWhile isDigit s in if d = [] then None else Some (d, dropWhile isDigit s))"

definition optionally :: "(string \<Rightarrow> string option) \<Rightarrow> (string \<Rightarrow> 'a option) \<Rightarrow> string \<Rightarrow> 'a option" where
  "optionally p k s =
     (case p s of
        Some r \<Rightarrow> (case k r of Some x \<Rightarrow> Some x | None \<Rightarrow> k s)
      | None \<Rightarrow> k s)"


text \<open>
  A matcher for a whole pattern takes the rest of the subject and gives, when the pattern
  matches at its start, a result and the length of the match. The three functions below walk
  the subject from left to right, as a pattern with flag \<open>g\<close> does: \<open>skip\<close> counts the code
  units of the last match still to pass, and an empty match moves on by one code unit.
  \<open>replaceMatches\<close> is \<open>replace\<close> (the result is the replacement text), \<open>matchAll\<close> is
  \<open>match\<close>, \<open>splitMatches\<close> is \<open>split\<close> with the pieces between the matches.
\<close>

fun replaceMatches :: "(string \<Rightarrow> (string \<times> nat) option) \<Rightarrow> nat \<Rightarrow> string \<Rightarrow> string" where
  "replaceMatches m skip [] = []"
| "replaceMatches m skip (c # cs) =
     (if skip > 0 then replaceMatches m (skip - 1) cs
      else case m (c # cs) of
             Some (new, n) \<Rightarrow> new @ replaceMatches m (n - 1) cs
           | None \<Rightarrow> c # replaceMatches m 0 cs)"

fun matchAll :: "(string \<Rightarrow> ('a \<times> nat) option) \<Rightarrow> nat \<Rightarrow> string \<Rightarrow> 'a list" where
  "matchAll m skip [] = []"
| "matchAll m skip (c # cs) =
     (if skip > 0 then matchAll m (skip - 1) cs
      else case m (c # cs) of
             Some (r, n) \<Rightarrow> r # matchAll m (n - 1) cs
           | None \<Rightarrow> matchAll m 0 cs)"

fun splitMatches :: "(string \<Rightarrow> nat option) \<Rightarrow> nat \<Rightarrow> string \<Rightarrow> string list" where
  "splitMatches m skip [] = [[]]"
| "splitMatches m skip (c # cs) =
     (if skip > 0 then splitMatches m (skip - 1) cs
      else case m (c # cs) of
             Some n \<Rightarrow> [] # splitMatches m (n - 1) cs
           | None \<Rightarrow> (case splitMatches m 0 cs of
                        piece # pieces \<Rightarrow> (c # piece) # pieces
                      | [] \<Rightarrow> [[c]]))"

text \<open>
  A lazy run \<open>(.*?)\<close> or \<open>([\s\S]*?)\<close> before a closing pattern: the shortest run of allowed code
  units after which the closing pattern matches. The result is the run and the length of the
  closing match.
\<close>

fun lazyUntil :: "(char \<Rightarrow> bool) \<Rightarrow> (string \<Rightarrow> nat option) \<Rightarrow> string \<Rightarrow> (string \<times> nat) option" where
  "lazyUntil allowed closing [] = map_option (\<lambda>n. ([], n)) (closing [])"
| "lazyUntil allowed closing (c # cs) =
     (case closing (c # cs) of
        Some n \<Rightarrow> Some ([], n)
      | None \<Rightarrow>
          if allowed c then map_option (\<lambda>(g, n). (c # g, n)) (lazyUntil allowed closing cs)
          else None)"

definition lit :: "bool \<Rightarrow> string \<Rightarrow> string \<Rightarrow> nat option" where
  \<comment> \<open>a literal, case-insensitive when the flag \<open>i\<close> is set\<close>
  "lit ci p s = (if (if ci then ciPrefix p s else prefix p s) then Some (length p) else None)"

definition dot :: "char \<Rightarrow> bool" where
  \<comment> \<open>\<open>.\<close> matches everything but a line terminator\<close>
  "dot c \<longleftrightarrow> \<not> isLineTerminator c"

definition anyChar :: "char \<Rightarrow> bool" where
  \<comment> \<open>\<open>[\s\S]\<close>\<close>
  "anyChar c \<longleftrightarrow> True"

definition element :: "bool \<Rightarrow> string \<Rightarrow> (char \<Rightarrow> bool) \<Rightarrow> string \<Rightarrow> string \<Rightarrow> (string \<times> nat) option" where
  \<comment> \<open>\<open>open(.*?)close\<close>: group 1 and the length of the match\<close>
  "element ci opening allowed closing s =
     (case lit ci opening s of
        None \<Rightarrow> None
      | Some k \<Rightarrow>
          (case lazyUntil allowed (lit ci closing) (drop k s) of
             None \<Rightarrow> None
           | Some (g, n) \<Rightarrow> Some (g, k + length g + n)))"


section \<open>Times (\<open>extractTime\<close>, recipe-extraction.js)\<close>

text \<open>
  The three patterns share everything after the first word:
  \<open>\s+time:?\s*(\d+)(?:\s+to\s+(\d+))?\s+(minutes|hours)\<close>. A match is returned as its groups
  1, 2 (absent when the rng did not take part) and 3.
\<close>

definition timeUnit :: "string option \<Rightarrow> string \<Rightarrow> string \<Rightarrow> (string \<times> string option \<times> string) option" where
  \<comment> \<open>\<open>\s+(minutes|hours)\<close>\<close>
  "timeUnit g2 g1 s =
     (case spaces1 s of
        None \<Rightarrow> None
      | Some r \<Rightarrow>
          if ciPrefix ''minutes'' r then Some (g1, g2, take 7 r)
          else if ciPrefix ''hours'' r then Some (g1, g2, take 5 r)
          else None)"

definition timeRange :: "string \<Rightarrow> (string \<times> string) option" where
  \<comment> \<open>\<open>\s+to\s+(\d+)\<close>\<close>
  "timeRange s = do { a \<leftarrow> spaces1 s; b \<leftarrow> litCI ''to'' a; c \<leftarrow> spaces1 b; digits1 c }"

definition timeAmount :: "string \<Rightarrow> (string \<times> string option \<times> string) option" where
  \<comment> \<open>\<open>\s*(\d+)(?:\s+to\s+(\d+))?\s+(minutes|hours)\<close>\<close>
  "timeAmount s =
     (case digits1 (dropWhile isSpace s) of
        None \<Rightarrow> None
      | Some (g1, r) \<Rightarrow>
          (case timeRange r of
             Some (g2, r') \<Rightarrow>
               (case timeUnit (Some g2) g1 r' of Some m \<Rightarrow> Some m | None \<Rightarrow> timeUnit None g1 r)
           | None \<Rightarrow> timeUnit None g1 r))"

definition timeLabel :: "string \<Rightarrow> (string \<times> string option \<times> string) option" where
  \<comment> \<open>\<open>\s+time:?\<close> and the amount\<close>
  "timeLabel s = do { a \<leftarrow> spaces1 s; b \<leftarrow> litCI ''time'' a; optionally (litCI '':'') timeAmount b }"

definition prepRegex :: "string \<Rightarrow> (string \<times> string option \<times> string) option" where
  "prepRegex s = do { a \<leftarrow> litCI ''prep'' s; optionally (litCI ''aration'') timeLabel a }"

definition cookRegex :: "string \<Rightarrow> (string \<times> string option \<times> string) option" where
  "cookRegex s = do { a \<leftarrow> litCI ''cook'' s; optionally (litCI ''ing'') timeLabel a }"

definition totalRegex :: "string \<Rightarrow> (string \<times> string option \<times> string) option" where
  "totalRegex s = do { a \<leftarrow> litCI ''total'' s; timeLabel a }"

definition extractTime :: "string \<Rightarrow> string \<Rightarrow> string" where
  "extractTime content timeType =
     (let lowerContent = toLowerCase content;
          timeMatch =
            (if timeType = ''prep'' then firstMatch prepRegex lowerContent
             else if timeType = ''cook'' then firstMatch cookRegex lowerContent
             else if timeType = ''total'' then firstMatch totalRegex lowerContent
             else None)
      in case timeMatch of
           Some (time, upper, unit) \<Rightarrow> time @ '' '' @ toLowerCase unit
         | None \<Rightarrow>
             if timeType = ''prep'' then ''15 minutes''
             else if timeType = ''cook'' then ''30 minutes''
             else if timeType = ''total'' then ''45 minutes''
             else [])"

text \<open>
  The pattern as the specification words it, for comparison:
  \<open><type>\s*time:?\s*(\d+)(?:\s+to\s+(\d+))?\s+(minutes|hours)\<close>, case-insensitive, anywhere
  in the document.
\<close>

definition specTimeRegex :: "string \<Rightarrow> string \<Rightarrow> (string \<times> string option \<times> string) option" where
  "specTimeRegex timeType s =
     do { a \<leftarrow> litCI timeType s; b \<leftarrow> litCI ''time'' (dropWhile isSpace a);
          optionally (litCI '':'') timeAmount b }"

definition specTimeMatches :: "string \<Rightarrow> string \<Rightarrow> bool" where
  "specTimeMatches timeType html \<longleftrightarrow> firstMatch (specTimeRegex timeType) html \<noteq> None"

text \<open>
  What the source's patterns accept, said without a matcher: a first word, white space,
  \<open>time\<close>, an optional colon, optional white space, digits, an optional rng, white space and
  the unit.
\<close>

definition allSpace :: "string \<Rightarrow> bool" where
  "allSpace s \<longleftrightarrow> (\<forall>c\<in>set s. isSpace c)"

definition allDigits :: "string \<Rightarrow> bool" where
  "allDigits s \<longleftrightarrow> (\<forall>c\<in>set s. isDigit c)"

definition timePhrase :: "string set \<Rightarrow> string \<Rightarrow> bool" where
  "timePhrase firstWords w \<longleftrightarrow>
     (\<exists>first ws1 colon ws2 lo rng ws3 unit.
        w = first @ ws1 @ ''time'' @ colon @ ws2 @ lo @ rng @ ws3 @ unit
        \<and> first \<in> firstWords \<and> ws1 \<noteq> [] \<and> allSpace ws1
        \<and> (colon = [] \<or> colon = '':'') \<and> allSpace ws2
        \<and> lo \<noteq> [] \<and> allDigits lo
        \<and> (rng = [] \<or>
            (\<exists>a b hi. rng = a @ ''to'' @ b @ hi \<and> a \<noteq> [] \<and> allSpace a
                      \<and> b \<noteq> [] \<and> allSpace b \<and> hi \<noteq> [] \<and> allDigits hi))
        \<and> ws3 \<noteq> [] \<and> allSpace ws3 \<and> (unit = ''minutes'' \<or> unit = ''hours''))"

definition firstWords :: "string \<Rightarrow> string set" where
  "firstWords timeType =
     (if timeType = ''prep'' then {''prep'', ''preparation''}
      else if timeType = ''cook'' then {''cook'', ''cooking''}
      else if timeType = ''total'' then {''total''}
      else {})"

definition defaultTime :: "string \<Rightarrow> string" where
  "defaultTime timeType =
     (if timeType = ''prep'' then ''15 minutes''
      else if timeType = ''cook'' then ''30 minutes''
      else if timeType = ''total'' then ''45 minutes''
      else [])"


section \<open>Publication format (\<open>formatContentForWordPress\<close>)\<close>

text \<open>
  The values that can reach the formatter and the generator. A number is an integer, below
  \<open>10^21\<close> in magnitude, where \<open>String\<close> writes the digits. An object (an array, a function)
  is given by what the conversion to a string makes of it: a text, or the error that the
  conversion throws (an object without a usable \<open>toString\<close>). The program looks at a value
  that is not a string only through its truthiness and this conversion, so another truthy
  value (a fraction, a symbol under \<open>String\<close>) behaves as the object with its text, and
  another falsy one (\<open>NaN\<close>) as \<open>null\<close>.
\<close>

datatype js_error = TypeError | SyntaxError | ApiError string

datatype jsval = JUndefined | JNull | JBool bool | JNum int | JStr string | JObj "js_error + string"

definition showInt :: "int \<Rightarrow> string" where
  "showInt i = (if i < 0 then ''-'' @ showNat (nat (- i)) else showNat (nat i))"

text \<open>\<open>String(v)\<close>, and \<open>v\<close> in a template literal: the text, or the error thrown.\<close>

fun toStringJS :: "jsval \<Rightarrow> js_error + string" where
  "toStringJS JUndefined = Inr ''undefined''"
| "toStringJS JNull = Inr ''null''"
| "toStringJS (JBool b) = Inr (if b then ''true'' else ''false'')"
| "toStringJS (JNum n) = Inr (showInt n)"
| "toStringJS (JStr s) = Inr s"
| "toStringJS (JObj conversion) = conversion"

fun truthy :: "jsval \<Rightarrow> bool" where
  "truthy JUndefined = False"
| "truthy JNull = False"
| "truthy (JBool b) = b"
| "truthy (JNum n) = (n \<noteq> 0)"
| "truthy (JStr s) = (s \<noteq> [])"
| "truthy (JObj conversion) = True"

fun isString :: "jsval \<Rightarrow> bool" where
  "isString (JStr s) = True"
| "isString v = False"

definition orEmpty :: "jsval \<Rightarrow> jsval" where
  \<comment> \<open>\<open>content || ''\<close>\<close>
  "orEmpty v = (if truthy v then v else JStr [])"

definition isAsciiLetter :: "char \<Rightarrow> bool" where
  "isAsciiLetter c \<longleftrightarrow>
     (let n = (of_char c :: nat) in (65 \<le> n \<and> n \<le> 90) \<or> (97 \<le> n \<and> n \<le> 122))"

definition tagAt :: "string \<Rightarrow> bool" where
  \<comment> \<open>\<open><\/?[a-z][\s\S]*>\<close> with flag \<open>i\<close>, at the start of \<open>s\<close>\<close>
  "tagAt s =
     (case s of
        [] \<Rightarrow> False
      | c # r \<Rightarrow>
          c = CHR ''<'' \<and>
          ((case r of
              d # e # r' \<Rightarrow> d = CHR ''/'' \<and> isAsciiLetter e \<and> CHR ''>'' \<in> set r'
            | _ \<Rightarrow> False)
           \<or> (case r of d # r' \<Rightarrow> isAsciiLetter d \<and> CHR ''>'' \<in> set r' | [] \<Rightarrow> False)))"

definition hasHtmlTags :: "string \<Rightarrow> bool" where
  "hasHtmlTags content = anywhere tagAt content"

definition heading3Open :: string where
  \<open>heading3Open = ''<!-- wp:heading {"level":3} --><h3>''\<close>

definition orderedListOpen :: string where
  \<open>orderedListOpen = ''<!-- wp:list {"ordered":true} --><ol>''\<close>

definition wrapElement :: "string \<Rightarrow> (char \<Rightarrow> bool) \<Rightarrow> string \<Rightarrow> string \<Rightarrow> string \<Rightarrow> string \<Rightarrow> string" where
  \<comment> \<open>\<open>.replace(/open(...)close/gi, 'before$1after')\<close>\<close>
  "wrapElement opening allowed closing before_text after_text content =
     replaceMatches
       (\<lambda>s. map_option (\<lambda>(g, n). (before_text @ g @ after_text, n))
              (element True opening allowed closing s))
       0 content"

definition formatHtml :: "string \<Rightarrow> string" where
  "formatHtml content =
     wrapElement ''<ol>'' anyChar ''</ol>''
        orderedListOpen ''</ol><!-- /wp:list -->''
     (wrapElement ''<ul>'' anyChar ''</ul>'' ''<!-- wp:list --><ul>'' ''</ul><!-- /wp:list -->''
     (wrapElement ''<p>'' dot ''</p>'' ''<!-- wp:paragraph --><p>'' ''</p><!-- /wp:paragraph -->''
     (wrapElement ''<h3>'' dot ''</h3>''
        heading3Open ''</h3><!-- /wp:heading -->''
     (wrapElement ''<h2>'' dot ''</h2>'' ''<!-- wp:heading --><h2>'' ''</h2><!-- /wp:heading -->''
        content))))"

text \<open>\<open>content.split('\n\n')\<close>: the pieces between the blank lines, leftmost first.\<close>

fun splitBlankLines :: "string \<Rightarrow> string list" where
  "splitBlankLines [] = [[]]"
| "splitBlankLines [c] = [[c]]"
| "splitBlankLines (c # d # cs) =
     (if c = CHR 0x0A \<and> d = CHR 0x0A then [] # splitBlankLines cs
      else case splitBlankLines (d # cs) of
             piece # pieces \<Rightarrow> (c # piece) # pieces
           | [] \<Rightarrow> [[c]])"

definition formatParagraph :: "string \<Rightarrow> string" where
  "formatParagraph para =
     (if prefix ''# '' para
      then ''<!-- wp:heading --><h2>'' @ drop 2 para @ ''</h2><!-- /wp:heading -->''
      else if prefix ''## '' para
      then ''<!-- wp:heading --><h2>'' @ drop 3 para @ ''</h2><!-- /wp:heading -->''
      else if prefix ''### '' para
      then heading3Open @ drop 4 para @ ''</h3><!-- /wp:heading -->''
      else ''<!-- wp:paragraph --><p>'' @ para @ ''</p><!-- /wp:paragraph -->'')"

definition formatPlain :: "string \<Rightarrow> string" where
  "formatPlain content =
     joinWith [CHR 0x0A, CHR 0x0A]
       (map formatParagraph
          (filter (\<lambda>para. length para > 0) (map trim (splitBlankLines content))))"

text \<open>
  The body of the \<open>try\<close> block after the guard. \<open>replace\<close> and \<open>split\<close> exist on strings only:
  on any other value the call is a TypeError, which is what the guard is there to prevent.
\<close>

definition formatBody :: "jsval \<Rightarrow> js_error + string" where
  "formatBody content =
     (case content of
        JStr s \<Rightarrow> Inr (if hasHtmlTags s then formatHtml s else formatPlain s)
      | _ \<Rightarrow> Inl TypeError)"

definition ensureString :: "jsval \<Rightarrow> js_error + jsval" where
  \<comment> \<open>\<open>if (!content || typeof content !== 'string') content = String(content || '')\<close>\<close>
  "ensureString content =
     (if \<not> truthy content \<or> \<not> isString content
      then (case toStringJS (orEmpty content) of
              Inl error \<Rightarrow> Inl error
            | Inr s \<Rightarrow> Inr (JStr s))
      else Inr content)"

text \<open>
  \<open>try { ... } catch (error) { return String(content || '') }\<close> around a body: the guard
  first, then the body. When the guard throws, \<open>content\<close> is still the input in the \<open>catch\<close>
  block; when the body throws, it is the string that the guard has made. The conversion in
  the \<open>catch\<close> block is outside every \<open>try\<close>: what it throws, the function throws.
\<close>

definition guarded :: "(jsval \<Rightarrow> js_error + string) \<Rightarrow> jsval \<Rightarrow> js_error + string" where
  "guarded body content =
     (case ensureString content of
        Inl error \<Rightarrow> toStringJS (orEmpty content)
      | Inr content' \<Rightarrow>
          (case body content' of
             Inr formatted \<Rightarrow> Inr formatted
           | Inl error \<Rightarrow> toStringJS (orEmpty content')))"

definition formatContentForWordPress :: "jsval \<Rightarrow> js_error + string" where
  "formatContentForWordPress content = guarded formatBody content"


section \<open>Term suppression (\<open>removeProhibitedContent\<close>, openai.js)\<close>

definition hdOpt :: "string \<Rightarrow> char option" where
  "hdOpt s = (case s of [] \<Rightarrow> None | c # cs \<Rightarrow> Some c)"

definition lastOpt :: "string \<Rightarrow> char option" where
  "lastOpt s = (if s = [] then None else Some (last s))"

definition isWord :: "char option \<Rightarrow> bool" where
  "isWord a = (case a of None \<Rightarrow> False | Some c \<Rightarrow> isWordChar c)"

definition wordBoundary :: "char option \<Rightarrow> char option \<Rightarrow> bool" where
  \<comment> \<open>\<open>\b\<close> between two neighbours; \<open>None\<close> is an end of the subject\<close>
  "wordBoundary a b \<longleftrightarrow> isWord a \<noteq> isWord b"

text \<open>
  \<open>parseAvoidTerms\<close>: the pattern \<open>(?:"([^"]+)"|'([^']+)'|([^,"']+))\<close> is run over the
  specification with \<open>exec\<close>. A quoted alternative needs its closing quote; where none of the
  three alternatives matches, the search moves on by one code unit.
\<close>

definition quotedTerm :: "char \<Rightarrow> string \<Rightarrow> (string \<times> nat) option" where
  "quotedTerm q s =
     (case s of
        [] \<Rightarrow> None
      | c # r \<Rightarrow>
          if c = q
          then (let body = takeWhile (\<lambda>x. x \<noteq> q) r; rest = dropWhile (\<lambda>x. x \<noteq> q) r
                in if body \<noteq> [] \<and> rest \<noteq> [] then Some (body, length body + 2) else None)
          else None)"

definition bareTerm :: "string \<Rightarrow> (string \<times> nat) option" where
  "bareTerm s =
     (let body = takeWhile (\<lambda>x. x \<noteq> CHR '','' \<and> x \<noteq> CHR 0x22 \<and> x \<noteq> CHR 0x27) s
      in if body \<noteq> [] then Some (body, length body) else None)"

definition termRegex :: "string \<Rightarrow> (string \<times> nat) option" where
  "termRegex s =
     (case quotedTerm (CHR 0x22) s of
        Some m \<Rightarrow> Some m
      | None \<Rightarrow> (case quotedTerm (CHR 0x27) s of Some m \<Rightarrow> Some m | None \<Rightarrow> bareTerm s))"

definition parseAvoidTerms :: "string \<Rightarrow> string list" where
  "parseAvoidTerms thingsToAvoid =
     map trim (filter (\<lambda>term. trim term \<noteq> []) (matchAll termRegex 0 thingsToAvoid))"

definition isQuote :: "char \<Rightarrow> bool" where
  "isQuote c \<longleftrightarrow> c = CHR 0x22 \<or> c = CHR 0x27"

definition stripQuotes :: "string \<Rightarrow> string" where
  \<comment> \<open>\<open>.replace(/^["'](.+)["']$/, '$1')\<close>\<close>
  "stripQuotes t =
     (if length t \<ge> 3 \<and> isQuote (hd t) \<and> isQuote (last t) \<and> (\<forall>c\<in>set (butlast (tl t)). dot c)
      then butlast (tl t) else t)"

definition cleanTerm :: "string \<Rightarrow> string" where
  "cleanTerm t = toLowerCase (stripQuotes (trim t))"

text \<open>
  \<open>JSON.parse\<close> is the host's. It is a parameter here: \<open>None\<close> when it throws, otherwise the
  elements of the array (a text that begins with \<open>[\<close> and ends with \<open>]\<close> parses to an array
  or not at all). Only a string element has \<open>trim\<close>; on any other element the call
  \<open>term.trim()\<close> is a TypeError.
\<close>

datatype json = JsonString string | JsonOther

fun jsonStrings :: "json list \<Rightarrow> js_error + string list" where
  "jsonStrings [] = Inr []"
| "jsonStrings (JsonOther # rest) = Inl TypeError"
| "jsonStrings (JsonString t # rest) =
     (case jsonStrings rest of Inl e \<Rightarrow> Inl e | Inr ts \<Rightarrow> Inr (t # ts))"

definition avoidTerms :: "(string \<Rightarrow> json list option) \<Rightarrow> string \<Rightarrow> js_error + string list" where
  "avoidTerms jsonParse thingsToAvoid =
     (let parsed =
            (if prefix ''['' (trim thingsToAvoid) \<and> suffix '']'' (trim thingsToAvoid)
             then (case jsonParse thingsToAvoid of
                     Some terms \<Rightarrow> terms
                   | None \<Rightarrow> map JsonString (parseAvoidTerms thingsToAvoid))
             else map JsonString (parseAvoidTerms thingsToAvoid))
      in case jsonStrings parsed of
           Inl e \<Rightarrow> Inl e
         | Inr terms \<Rightarrow> Inr (filter (\<lambda>term. length term > 0) (map cleanTerm terms)))"

text \<open>
  \<open>new RegExp(`\\b${escapeRegExp(term)}\\b`, 'gi')\<close>: after the escaping the term is a
  literal, so the pattern matches at the start of \<open>s\<close> when \<open>s\<close> begins with the term up to
  case and there is a word boundary on both sides; \<open>prev\<close> is the code unit before \<open>s\<close>.
\<close>

definition nthOpt :: "string \<Rightarrow> nat \<Rightarrow> char option" where
  "nthOpt s i = (if i < length s then Some (s ! i) else None)"

definition termAt :: "string \<Rightarrow> char option \<Rightarrow> string \<Rightarrow> bool" where
  "termAt term prev s \<longleftrightarrow>
     wordBoundary prev (hdOpt s) \<and> ciPrefix term s
     \<and> wordBoundary (nthOpt s (length term - 1)) (nthOpt s (length term))"

text \<open>
  \<open>content.replace(wordPattern, '[alternative]')\<close>, for a term that is not empty (the empty
  terms were filtered out before).
\<close>

function replaceTerm :: "string \<Rightarrow> char option \<Rightarrow> string \<Rightarrow> string" where
  "replaceTerm term prev s =
     (if s = [] \<or> term = [] then s
      else if termAt term prev s
      then ''[alternative]'' @ replaceTerm term (nthOpt s (length term - 1)) (drop (length term) s)
      else hd s # replaceTerm term (Some (hd s)) (tl s))"
  by pat_completeness auto
termination
  by (relation "measure (\<lambda>(term, prev, s). length s)") auto

declare replaceTerm.simps [simp del]

definition removeProhibitedContent ::
  "(string \<Rightarrow> json list option) \<Rightarrow> string \<Rightarrow> string \<Rightarrow> js_error + string" where
  "removeProhibitedContent jsonParse content thingsToAvoid =
     (case avoidTerms jsonParse thingsToAvoid of
        Inl e \<Rightarrow> Inl e
      | Inr terms \<Rightarrow> Inr (fold (\<lambda>term content. replaceTerm term None content) terms content))"

text \<open>
  A whole-word, case-insensitive occurrence of a term in a text, said without the scan: a piece
  of the text that is the term up to case, with a word boundary before and after it.
\<close>

definition wholeWordOccurs :: "string \<Rightarrow> string \<Rightarrow> bool" where
  "wholeWordOccurs term s \<longleftrightarrow>
     (\<exists>pre m post. s = pre @ m @ post \<and> m \<noteq> [] \<and> toLowerCase m = toLowerCase term
        \<and> wordBoundary (lastOpt pre) (hdOpt m) \<and> wordBoundary (lastOpt m) (hdOpt post))"


section \<open>Recipe extraction (recipe-extraction.js)\<close>

record details =
  PrepTime :: string
  CookTime :: string
  TotalTime :: string
  Yield :: string
  Category :: string
  Method :: string
  Cuisine :: string
  Diet :: string

record nutrition =
  ServingSize :: string
  Calories :: string
  Sugar :: string
  Sodium :: string
  Fat :: string
  SaturatedFat :: string
  UnsaturatedFat :: string
  TransFat :: string
  Carbohydrates :: string
  Fiber :: string
  Protein :: string
  Cholesterol :: string

record recipeData =
  Description :: string
  Ingredients :: string
  Instructions :: string
  Notes :: string
  Details :: details
  Keywords :: string
  Nutrition :: nutrition

subsection \<open>Patterns\<close>

definition wholeMatch :: "(string \<Rightarrow> (string \<times> nat) option) \<Rightarrow> string \<Rightarrow> (string \<times> nat) option" where
  \<comment> \<open>the matched text in place of group 1, as \<open>match\<close> with flag \<open>g\<close> returns it\<close>
  "wholeMatch m s = map_option (\<lambda>(g, n). (take n s, n)) (m s)"

definition paragraphRegex :: "string \<Rightarrow> (string \<times> nat) option" where
  \<comment> \<open>\<open>/<p>(.*?)<\/p>/g\<close>\<close>
  "paragraphRegex = wholeMatch (element False ''<p>'' dot ''</p>'')"

definition stripParagraphTags :: "string \<Rightarrow> string" where
  \<comment> \<open>\<open>.replace(/<\/?p>/g, '')\<close>\<close>
  "stripParagraphTags s =
     replaceMatches
       (\<lambda>r. if prefix ''<p>'' r then Some ([], 3) else if prefix ''</p>'' r then Some ([], 4) else None)
       0 s"

definition isHeadingLevel :: "char \<Rightarrow> bool" where
  \<comment> \<open>\<open>[2-3]\<close>\<close>
  "isHeadingLevel c \<longleftrightarrow> c = CHR ''2'' \<or> c = CHR ''3''"

definition headingOpen :: "bool \<Rightarrow> string \<Rightarrow> nat option" where
  \<comment> \<open>\<open><h[2-3][^>]*>\<close>: the length of the tag\<close>
  "headingOpen ci s =
     (case lit ci ''<h'' s of
        None \<Rightarrow> None
      | Some k \<Rightarrow>
          (case drop k s of
             [] \<Rightarrow> None
           | d # r \<Rightarrow>
               if isHeadingLevel d \<and> CHR ''>'' \<in> set r
               then Some (k + 1 + length (takeWhile (\<lambda>c. c \<noteq> CHR ''>'') r) + 1)
               else None))"

definition headingClose :: "bool \<Rightarrow> string \<Rightarrow> nat option" where
  \<comment> \<open>\<open><\/h[2-3]>\<close>\<close>
  "headingClose ci s =
     (case lit ci ''</h'' s of
        None \<Rightarrow> None
      | Some k \<Rightarrow>
          (case drop k s of
             d # e # r \<Rightarrow> if isHeadingLevel d \<and> e = CHR ''>'' then Some (k + 2) else None
           | _ \<Rightarrow> None))"

definition sectionEnd :: "string \<Rightarrow> nat option" where
  \<comment> \<open>\<open>(?:<h[2-3]|<\/body)\<close> with flag \<open>i\<close>\<close>
  "sectionEnd s =
     (case lit True ''<h'' s of
        Some k \<Rightarrow>
          (case drop k s of
             d # r \<Rightarrow> if isHeadingLevel d then Some (k + 1) else lit True ''</body'' s
           | [] \<Rightarrow> lit True ''</body'' s)
      | None \<Rightarrow> lit True ''</body'' s)"

text \<open>
  The section patterns
  \<open>(?:<h[2-3][^>]*>(?:TITLE)<\/h[2-3]>)([\s\S]*?)(?:<h[2-3]|<\/body)\<close> with flag \<open>i\<close>.
  Every alternative of \<open>TITLE\<close> has to be followed by \<open><\<close>, and none of them can pass a
  \<open><\<close>, so the title is the text up to the first \<open><\<close> after the opening tag: an
  alternative \<open>[^<]*word\<close> asks that this text ends with the word, \<open>word[^<]*\<close> that it begins
  with it, and a bare \<open>word\<close> that it is the word. The result is group 1.
\<close>

definition ciSuffix :: "string \<Rightarrow> string \<Rightarrow> bool" where
  "ciSuffix p s = ciPrefix (rev p) (rev s)"

definition ciEqual :: "string \<Rightarrow> string \<Rightarrow> bool" where
  "ciEqual p s \<longleftrightarrow> length p = length s \<and> ciPrefix p s"

definition sectionRegex :: "(string \<Rightarrow> bool) \<Rightarrow> string \<Rightarrow> string option" where
  "sectionRegex title s =
     (case headingOpen True s of
        None \<Rightarrow> None
      | Some k \<Rightarrow>
          (let text = takeWhile (\<lambda>c. c \<noteq> CHR ''<'') (drop k s);
               rest = dropWhile (\<lambda>c. c \<noteq> CHR ''<'') (drop k s)
           in if title text
              then (case headingClose True rest of
                      None \<Rightarrow> None
                    | Some n \<Rightarrow> map_option fst (lazyUntil anyChar sectionEnd (drop n rest)))
              else None))"

definition ingredientsTitle :: "string \<Rightarrow> bool" where
  \<comment> \<open>\<open>[^<]*ingredients|ingredients[^<]*\<close>\<close>
  "ingredientsTitle t \<longleftrightarrow> ciSuffix ''ingredients'' t \<or> ciPrefix ''ingredients'' t"

definition instructionsTitle :: "string \<Rightarrow> bool" where
  \<comment> \<open>\<open>[^<]*instructions|directions|method|steps|how to[^<]*\<close>\<close>
  "instructionsTitle t \<longleftrightarrow>
     ciSuffix ''instructions'' t \<or> ciEqual ''directions'' t \<or> ciEqual ''method'' t
     \<or> ciEqual ''steps'' t \<or> ciPrefix ''how to'' t"

definition notesTitle :: "string \<Rightarrow> bool" where
  \<comment> \<open>\<open>[^<]*notes|tips|additional|advice[^<]*\<close>\<close>
  "notesTitle t \<longleftrightarrow>
     ciSuffix ''notes'' t \<or> ciEqual ''tips'' t \<or> ciEqual ''additional'' t \<or> ciPrefix ''advice'' t"

definition nutritionTitle :: "string \<Rightarrow> bool" where
  \<comment> \<open>\<open>[^<]*nutrition|nutritional|nutrients[^<]*\<close>\<close>
  "nutritionTitle t \<longleftrightarrow>
     ciSuffix ''nutrition'' t \<or> ciEqual ''nutritional'' t \<or> ciPrefix ''nutrients'' t"

definition listRegex :: "bool \<Rightarrow> string \<Rightarrow> string \<Rightarrow> string \<Rightarrow> (string \<times> nat) option" where
  \<comment> \<open>\<open><ul>([\s\S]*?)<\/ul>\<close> and the same for \<open>ol\<close>: group 1 and the length\<close>
  "listRegex ci opening closing = element ci opening anyChar closing"

definition brRegex :: "string \<Rightarrow> nat option" where
  \<comment> \<open>\<open><br\s*\/?>\<close>\<close>
  "brRegex s =
     (if prefix ''<br'' s
      then (let ws = takeWhile isSpace (drop 3 s); r = dropWhile isSpace (drop 3 s)
            in if prefix ''/>'' r then Some (3 + length ws + 2)
               else if prefix ''>'' r then Some (3 + length ws + 1)
               else None)
      else None)"

subsection \<open>Description\<close>

definition extractDescription :: "string \<Rightarrow> string" where
  "extractDescription content =
     (let paragraphs = matchAll paragraphRegex 0 content
      in if length paragraphs > 0
         then (let first = stripParagraphTags (paragraphs ! 0);
                   description =
                     (if length first < 50 \<and> length paragraphs > 1
                      then stripParagraphTags (paragraphs ! 1) else first)
               in if length description > 300 then take 297 description @ ''...''
                  else description)
         else ''A delicious and easy recipe that everyone will love.'')"

subsection \<open>Ingredients\<close>

definition ingredientLines :: "string list \<Rightarrow> string" where
  "ingredientLines lines =
     concat (map (\<lambda>line.
        (let line = trim line
         in if line \<noteq> [] \<and> \<not> prefix ''<'' line \<and> \<not> suffix ''>'' line \<and> length line > 3
            then ''<li>'' @ line @ ''</li>'' else [])) lines)"

definition ingredientsFromSection :: "string \<Rightarrow> string" where
  "ingredientsFromSection section =
     (let fromLines =
            (let lines = splitMatches brRegex 0 section
             in if length lines > 2 then ''<ul>'' @ ingredientLines lines @ ''</ul>'' else [])
      in case firstMatch (listRegex True ''<ul>'' ''</ul>'') section of
           Some (g, n) \<Rightarrow> if g \<noteq> [] then ''<ul>'' @ g @ ''</ul>'' else fromLines
         | None \<Rightarrow> fromLines)"

definition looksLikeIngredients :: "string \<Rightarrow> bool" where
  "looksLikeIngredients list \<longleftrightarrow>
     js_includes (toLowerCase list) ''cup'' \<or> js_includes (toLowerCase list) ''teaspoon''
     \<or> js_includes (toLowerCase list) ''tablespoon'' \<or> js_includes (toLowerCase list) ''ounce''
     \<or> js_includes (toLowerCase list) ''pound''"

definition extractIngredients :: "string \<Rightarrow> string" where
  "extractIngredients content =
     (let ingredients1 =
            (case firstMatch (sectionRegex ingredientsTitle) content of
               Some section \<Rightarrow> if section \<noteq> [] then ingredientsFromSection section else []
             | None \<Rightarrow> []);
          ingredients2 =
            (if ingredients1 = [] \<or> ingredients1 = ''<ul></ul>''
             then (case find looksLikeIngredients
                          (matchAll (wholeMatch (listRegex False ''<ul>'' ''</ul>'')) 0 content) of
                     Some list \<Rightarrow> list
                   | None \<Rightarrow> ingredients1)
             else ingredients1)
      in if ingredients2 = [] \<or> ingredients2 = ''<ul></ul>''
         then ''<ul><li>Ingredient 1</li><li>Ingredient 2</li><li>Ingredient 3</li></ul>''
         else ingredients2)"

subsection \<open>Instructions\<close>

definition stripLeadingNumber :: "string \<Rightarrow> string" where
  \<comment> \<open>\<open>.replace(/^\d+[\.\)\-]+\s*/, '')\<close>\<close>
  "stripLeadingNumber text =
     (let isMark = (\<lambda>c. c = CHR ''.'' \<or> c = CHR '')'' \<or> c = CHR ''-'');
          afterDigits = dropWhile isDigit text
      in if takeWhile isDigit text \<noteq> [] \<and> takeWhile isMark afterDigits \<noteq> []
         then dropWhile isSpace (dropWhile isMark afterDigits)
         else text)"

definition instructionItems :: "string list \<Rightarrow> string" where
  "instructionItems paragraphs =
     concat (map (\<lambda>p.
        (let text = trim (stripParagraphTags p)
         in if text \<noteq> [] \<and> length text > 5
            then ''<li>'' @ stripLeadingNumber text @ ''</li>'' else [])) paragraphs)"

definition instructionsFromSection :: "string \<Rightarrow> string" where
  "instructionsFromSection section =
     (let fromParagraphs =
            (let paragraphs = matchAll paragraphRegex 0 section
             in if length paragraphs > 1 then ''<ol>'' @ instructionItems paragraphs @ ''</ol>''
                else [])
      in case firstMatch (listRegex True ''<ol>'' ''</ol>'') section of
           Some (g, n) \<Rightarrow> if g \<noteq> [] then ''<ol>'' @ g @ ''</ol>'' else fromParagraphs
         | None \<Rightarrow> fromParagraphs)"

definition longestList :: "string list \<Rightarrow> string" where
  "longestList allLists =
     fold (\<lambda>list longest. if length list > length longest then list else longest) allLists []"

definition extractInstructions :: "string \<Rightarrow> string" where
  "extractInstructions content =
     (let instructions1 =
            (case firstMatch (sectionRegex instructionsTitle) content of
               Some section \<Rightarrow> if section \<noteq> [] then instructionsFromSection section else []
             | None \<Rightarrow> []);
          instructions2 =
            (if instructions1 = [] \<or> instructions1 = ''<ol></ol>''
             then (let allOrderedLists = matchAll (wholeMatch (listRegex False ''<ol>'' ''</ol>'')) 0 content
                   in if length allOrderedLists > 0 then longestList allOrderedLists
                      else instructions1)
             else instructions1)
      in if instructions2 = [] \<or> instructions2 = ''<ol></ol>''
         then ''<ol><li>Step 1</li><li>Step 2</li><li>Step 3</li></ol>''
         else instructions2)"

subsection \<open>Notes\<close>

definition noteItems :: "string list \<Rightarrow> string" where
  "noteItems paragraphs =
     concat (map (\<lambda>p.
        (let text = trim (stripParagraphTags p)
         in if text \<noteq> [] \<and> length text > 5 then ''<li>'' @ text @ ''</li>'' else [])) paragraphs)"

definition notesFromSection :: "string \<Rightarrow> string" where
  "notesFromSection section =
     (let fromParagraphs =
            (let paragraphs = matchAll paragraphRegex 0 section
             in if length paragraphs > 0 then ''<ul>'' @ noteItems paragraphs @ ''</ul>'' else [])
      in case firstMatch (listRegex True ''<ul>'' ''</ul>'') section of
           Some (g, n) \<Rightarrow> if g \<noteq> [] then ''<ul>'' @ g @ ''</ul>'' else fromParagraphs
         | None \<Rightarrow> fromParagraphs)"

definition extractNotes :: "string \<Rightarrow> string" where
  "extractNotes content =
     (let notes =
            (case firstMatch (sectionRegex notesTitle) content of
               Some section \<Rightarrow> if section \<noteq> [] then notesFromSection section else []
             | None \<Rightarrow> [])
      in if notes = []
         then ''<ul><li>For best results, let the dish rest for 5 minutes before serving.</li></ul>''
         else notes)"


subsection \<open>Yield\<close>

definition yieldWord :: "string \<Rightarrow> string option" where
  \<comment> \<open>\<open>(?:serves|servings|yield|makes):\<close>\<close>
  "yieldWord s =
     (case litCI ''serves:'' s of
        Some r \<Rightarrow> Some r
      | None \<Rightarrow>
          (case litCI ''servings:'' s of
             Some r \<Rightarrow> Some r
           | None \<Rightarrow> (case litCI ''yield:'' s of Some r \<Rightarrow> Some r | None \<Rightarrow> litCI ''makes:'' s)))"

definition yieldRegex :: "string \<Rightarrow> (string \<times> string option) option" where
  \<comment> \<open>\<open>(?:serves|servings|yield|makes):\s*(\d+)(?:\s*-\s*(\d+))?\<close>: groups 1 and 2\<close>
  "yieldRegex s =
     (case yieldWord s of
        None \<Rightarrow> None
      | Some r \<Rightarrow>
          (case digits1 (dropWhile isSpace r) of
             None \<Rightarrow> None
           | Some (g1, r1) \<Rightarrow>
               (case litCI ''-'' (dropWhile isSpace r1) of
                  None \<Rightarrow> Some (g1, None)
                | Some r2 \<Rightarrow>
                    (case digits1 (dropWhile isSpace r2) of
                       None \<Rightarrow> Some (g1, None)
                     | Some (g2, r3) \<Rightarrow> Some (g1, Some g2)))))"

definition extractYield :: "string \<Rightarrow> string" where
  "extractYield content =
     (case firstMatch yieldRegex (toLowerCase content) of
        Some (g1, Some g2) \<Rightarrow> g1 @ ''-'' @ g2 @ '' servings''
      | Some (g1, None) \<Rightarrow> g1 @ '' servings''
      | None \<Rightarrow> ''4 servings'')"

subsection \<open>Category, method, cuisine, diet\<close>

definition eAcute :: string where
  \<comment> \<open>the letter e with acute accent, code unit \<open>0xE9\<close>\<close>
  "eAcute = [CHR 0xE9]"

definition determineCategory :: "string \<Rightarrow> string \<Rightarrow> string" where
  "determineCategory content keyword =
     (let lowerContent = toLowerCase content; lowerKeyword = toLowerCase keyword
      in if js_includes lowerContent ''breakfast'' \<or> js_includes lowerKeyword ''breakfast''
            \<or> js_includes lowerContent ''morning meal''
         then ''Breakfast''
         else if js_includes lowerContent ''appetizer'' \<or> js_includes lowerKeyword ''appetizer''
            \<or> js_includes lowerContent ''starter'' \<or> js_includes lowerContent ''hors d'oeuvre''
         then ''Appetizer''
         else if js_includes lowerContent ''main course'' \<or> js_includes lowerContent ''dinner''
            \<or> js_includes lowerContent (''entr'' @ eAcute @ ''e'') \<or> js_includes lowerContent ''entree''
         then ''Main Course''
         else if js_includes lowerContent ''dessert'' \<or> js_includes lowerKeyword ''dessert''
            \<or> js_includes lowerContent ''sweet'' \<or> js_includes lowerContent ''cake''
            \<or> js_includes lowerContent ''cookie'' \<or> js_includes lowerContent ''pie''
         then ''Dessert''
         else if js_includes lowerContent ''side dish'' \<or> js_includes lowerKeyword ''side''
            \<or> js_includes lowerContent ''accompaniment''
         then ''Side Dish''
         else if js_includes lowerContent ''soup'' \<or> js_includes lowerKeyword ''soup''
            \<or> js_includes lowerContent ''stew'' \<or> js_includes lowerContent ''broth''
         then ''Soup''
         else if js_includes lowerContent ''salad'' \<or> js_includes lowerKeyword ''salad''
         then ''Salad''
         else if js_includes lowerContent ''drink'' \<or> js_includes lowerContent ''beverage''
            \<or> js_includes lowerContent ''cocktail'' \<or> js_includes lowerContent ''smoothie''
         then ''Drink''
         else ''Main Course'')"

definition determineMethod :: "string \<Rightarrow> string" where
  "determineMethod content =
     (let lowerContent = toLowerCase content
      in if js_includes lowerContent ''bake'' \<or> js_includes lowerContent ''roast''
            \<or> js_includes lowerContent ''oven''
         then ''Baking''
         else if js_includes lowerContent ''boil'' \<or> js_includes lowerContent ''blanch''
         then ''Boiling''
         else if js_includes lowerContent ''grill'' \<or> js_includes lowerContent ''barbecue''
            \<or> js_includes lowerContent ''bbq''
         then ''Grilling''
         else if js_includes lowerContent ''slow cooker'' \<or> js_includes lowerContent ''crockpot''
         then ''Slow Cooking''
         else if js_includes lowerContent ''pressure cooker'' \<or> js_includes lowerContent ''instant pot''
         then ''Pressure Cooking''
         else if js_includes lowerContent ''steam''
         then ''Steaming''
         else if js_includes lowerContent ''fry'' \<or> js_includes lowerContent (''saut'' @ eAcute)
            \<or> js_includes lowerContent ''saute''
         then ''Frying''
         else if js_includes lowerContent ''no cook'' \<or> js_includes lowerContent ''no-cook''
            \<or> js_includes lowerContent ''raw''
         then ''No-Cook''
         else ''Cooking'')"

definition cuisines :: "(string \<times> string list) list" where
  "cuisines =
     [(''Italian'', [''italian'', ''pasta'', ''pizza'', ''risotto'', ''lasagna'']),
      (''Mexican'', [''mexican'', ''taco'', ''burrito'', ''enchilada'', ''quesadilla'', ''salsa'']),
      (''Chinese'', [''chinese'', ''stir fry'', ''stir-fry'', ''wok'', ''dim sum'', ''dumpling'']),
      (''Indian'', [''indian'', ''curry'', ''masala'', ''tandoori'', ''naan'']),
      (''French'', [''french'', ''ratatouille'', ''croissant'', ''souffl'' @ eAcute, ''souffle'']),
      (''Thai'', [''thai'', ''pad thai'', ''curry'', ''tom yum'']),
      (''Japanese'', [''japanese'', ''sushi'', ''teriyaki'', ''miso'', ''tempura'']),
      (''Mediterranean'', [''mediterranean'', ''greek'', ''hummus'', ''falafel'', ''olive oil'']),
      (''American'', [''american'', ''burger'', ''hot dog'', ''mac and cheese'', ''barbecue''])]"

definition determineCuisine :: "string \<Rightarrow> string \<Rightarrow> string" where
  "determineCuisine content keyword =
     (let lowerContent = toLowerCase content; lowerKeyword = toLowerCase keyword
      in case find (\<lambda>(name, terms).
                 list_ex (\<lambda>term. js_includes lowerContent term \<or> js_includes lowerKeyword term) terms)
               cuisines of
           Some (name, terms) \<Rightarrow> name
         | None \<Rightarrow> ''American'')"

definition dietPatterns :: "(string \<times> string list) list" where
  "dietPatterns =
     [(''Vegan'', [''vegan'', ''plant-based'', ''no animal products'']),
      (''Vegetarian'', [''vegetarian'', ''no meat'', ''meatless'']),
      (''Gluten Free'', [''gluten-free'', ''gluten free'', ''without gluten'']),
      (''Low Calorie'', [''low calorie'', ''low-calorie'', ''diet'', ''light'']),
      (''Low Fat'', [''low fat'', ''low-fat'', ''fat free'']),
      (''Low Salt'', [''low salt'', ''low-salt'', ''low sodium'']),
      (''Diabetic'', [''diabetic'', ''diabetes'', ''low sugar'', ''sugar-free'']),
      (''Kosher'', [''kosher'', ''jewish dietary laws'']),
      (''Halal'', [''halal'', ''islamic dietary laws''])]"

definition determineDiet :: "string \<Rightarrow> string" where
  "determineDiet content =
     (let lowerContent = toLowerCase content
      in case find (\<lambda>(name, terms). list_ex (\<lambda>term. js_includes lowerContent term) terms)
               dietPatterns of
           Some (name, terms) \<Rightarrow> name
         | None \<Rightarrow> [])"

subsection \<open>Keywords\<close>

definition headerRegex :: "string \<Rightarrow> (string \<times> nat) option" where
  \<comment> \<open>\<open>/<h[2-3][^>]*>(.*?)<\/h[2-3]>/g\<close>: the matched text and its length\<close>
  "headerRegex s =
     (case headingOpen False s of
        None \<Rightarrow> None
      | Some k \<Rightarrow>
          (case lazyUntil dot (headingClose False) (drop k s) of
             None \<Rightarrow> None
           | Some (g, n) \<Rightarrow> Some (take (k + length g + n) s, k + length g + n)))"

definition headingTag :: "string \<Rightarrow> (string \<times> nat) option" where
  \<comment> \<open>\<open><\/?h[2-3][^>]*>\<close>, replaced by nothing\<close>
  "headingTag s =
     (case headingOpen False s of
        Some n \<Rightarrow> Some ([], n)
      | None \<Rightarrow>
          (if prefix ''</'' s
           then map_option (\<lambda>n. ([], n + 1)) (headingOpen False (CHR ''<'' # drop 2 s))
           else None))"

definition sectionWord :: "string \<Rightarrow> bool" where
  \<comment> \<open>\<open>text.match(/ingredients|instructions|steps|notes|tips/i)\<close>\<close>
  "sectionWord text \<longleftrightarrow>
     anywhere (\<lambda>s. ciPrefix ''ingredients'' s \<or> ciPrefix ''instructions'' s \<or> ciPrefix ''steps'' s
                    \<or> ciPrefix ''notes'' s \<or> ciPrefix ''tips'' s) text"

definition commonKeywords :: "string list" where
  "commonKeywords =
     [''homemade'', ''easy'', ''delicious'', ''quick'', ''healthy'',
      ''family'', ''dinner'', ''recipe'', ''best'', ''traditional'']"

definition extractKeywords :: "string \<Rightarrow> string" where
  "extractKeywords content =
     (let headers = matchAll headerRegex 0 content;
          keywordsStr1 =
            fold (\<lambda>header keywordsStr.
                    (let text = trim (replaceMatches headingTag 0 header)
                     in if text \<noteq> [] \<and> \<not> sectionWord text then keywordsStr @ '', '' @ text
                        else keywordsStr))
                 headers [];
          lowerContent = toLowerCase content;
          keywordsStr2 =
            fold (\<lambda>keyword keywordsStr.
                    if js_includes lowerContent keyword \<and> \<not> js_includes keywordsStr keyword
                    then keywordsStr @ '', '' @ keyword else keywordsStr)
                 commonKeywords keywordsStr1
      in if prefix '','' keywordsStr2 then dropWhile isSpace (tl keywordsStr2) else keywordsStr2)"

subsection \<open>Nutrition\<close>

definition decimal :: "string \<Rightarrow> (string \<times> string) option" where
  \<comment> \<open>\<open>(\d+\.?\d*)\<close>: the number and what follows it\<close>
  "decimal s =
     (case digits1 s of
        None \<Rightarrow> None
      | Some (d, r) \<Rightarrow>
          if prefix ''.'' r
          then Some (d @ ''.'' @ takeWhile isDigit (tl r), dropWhile isDigit (tl r))
          else Some (d, r))"

definition quantity :: "(string \<Rightarrow> string option) \<Rightarrow> string list \<Rightarrow> string \<Rightarrow> string option" where
  \<comment> \<open>\<open>label:?\s*(\d+\.?\d*)\s*(unit|...)\<close>: group 1\<close>
  "quantity label units s =
     (case label s of
        None \<Rightarrow> None
      | Some r \<Rightarrow>
          optionally (litCI '':'')
            (\<lambda>r. case decimal (dropWhile isSpace r) of
                   None \<Rightarrow> None
                 | Some (g, r1) \<Rightarrow>
                     if list_ex (\<lambda>u. ciPrefix u (dropWhile isSpace r1)) units then Some g else None)
            r)"

definition caloriesRegex :: "string \<Rightarrow> string option" where
  \<comment> \<open>\<open>calories:?\s*(\d+)\<close>\<close>
  "caloriesRegex s =
     (case litCI ''calories'' s of
        None \<Rightarrow> None
      | Some r \<Rightarrow>
          optionally (litCI '':'') (\<lambda>r. map_option fst (digits1 (dropWhile isSpace r))) r)"

definition carbsLabel :: "string \<Rightarrow> string option" where
  \<comment> \<open>\<open>carb(?:ohydrate)?s\<close>\<close>
  "carbsLabel s =
     (case litCI ''carb'' s of
        None \<Rightarrow> None
      | Some r \<Rightarrow> optionally (litCI ''ohydrate'') (litCI ''s'') r)"

definition extractNutrition :: "string \<Rightarrow> nutrition" where
  "extractNutrition content =
     (let section =
            (case firstMatch (sectionRegex nutritionTitle) content of
               Some g \<Rightarrow> if g \<noteq> [] then Some (toLowerCase g) else None
             | None \<Rightarrow> None);
          grams = [''g'', ''grams''];
          milligrams = [''mg'', ''milligrams''];
          found = (\<lambda>regex suffix.
                     case section of
                       None \<Rightarrow> []
                     | Some text \<Rightarrow>
                         (case firstMatch regex text of Some g \<Rightarrow> g @ suffix | None \<Rightarrow> []));
          calories = found caloriesRegex [];
          fat = found (quantity (litCI ''fat'') grams) ''g'';
          carbs = found (quantity carbsLabel grams) ''g'';
          protein = found (quantity (litCI ''protein'') grams) ''g'';
          sugar = found (quantity (litCI ''sugar'') grams) ''g'';
          fiber = found (quantity (litCI ''fiber'') grams) ''g'';
          sodium = found (quantity (litCI ''sodium'') milligrams) ''mg'';
          cholesterol = found (quantity (litCI ''cholesterol'') milligrams) ''mg''
      in \<lparr> ServingSize = ''1 serving'',
           Calories = (if calories = [] then ''250'' else calories),
           Sugar = sugar,
           Sodium = sodium,
           Fat = (if fat = [] then ''10g'' else fat),
           SaturatedFat = [],
           UnsaturatedFat = [],
           TransFat = [],
           Carbohydrates = (if carbs = [] then ''30g'' else carbs),
           Fiber = fiber,
           Protein = (if protein = [] then ''15g'' else protein),
           Cholesterol = cholesterol \<rparr>)"

subsection \<open>The recipe record\<close>

definition recipeIndicators :: "string list" where
  "recipeIndicators =
     [''ingredients'', ''instructions'', ''preparation'', ''minutes'',
      ''cook time'', ''prep time'', ''servings'', ''recipe'', ''tablespoon'',
      ''teaspoon'', ''cup'', ''bake'', ''fry'', ''boil'', ''simmer'']"

definition indicatorCount :: "string \<Rightarrow> nat" where
  "indicatorCount content =
     fold (\<lambda>term count. if js_includes (toLowerCase content) term then count + 1 else count)
          recipeIndicators 0"

definition extractRecipeData :: "string \<Rightarrow> string \<Rightarrow> recipeData option" where
  "extractRecipeData content keyword =
     (if indicatorCount content < 3 then None
      else Some
        \<lparr> Description = extractDescription content,
          Ingredients = extractIngredients content,
          Instructions = extractInstructions content,
          Notes = extractNotes content,
          Details =
            \<lparr> PrepTime = extractTime content ''prep'',
              CookTime = extractTime content ''cook'',
              TotalTime = extractTime content ''total'',
              Yield = extractYield content,
              Category = determineCategory content keyword,
              Method = determineMethod content,
              Cuisine = determineCuisine content keyword,
              Diet = determineDiet content \<rparr>,
          Keywords = keyword @ extractKeywords content,
          Nutrition = extractNutrition content \<rparr>)"

text \<open>
  The gate in the specification's words: the number of the fifteen indicator terms that
  occur in the content as a substring, up to case.
\<close>

definition occursIgnoringCase :: "string \<Rightarrow> string \<Rightarrow> bool" where
  "occursIgnoringCase term content \<longleftrightarrow>
     (\<exists>pre m post. content = pre @ m @ post \<and> toLowerCase m = term)"

definition indicatorsPresent :: "string \<Rightarrow> string set" where
  "indicatorsPresent content = {term \<in> set recipeIndicators. occursIgnoringCase term content}"

section \<open>Article generation (\<open>generateArticleContent\<close>, openai.js)\<close>

record openaiConfig =
  apiKey :: string
  modelName :: string
  temperature :: int
  maxTokens :: nat

record promptSettings =
  useMultiPartGeneration :: bool
  mainPrompt :: string
  part1Prompt :: string
  part2Prompt :: string
  part3Prompt :: string
  toneVoice :: string
  seoGuidelines :: string
  thingsToAvoid :: string
  articleFormat :: string
  useArticleFormat :: bool
  enableRecipeDetection :: bool
  recipeFormatPrompt :: string

record chatRequest =
  requestModel :: string
  systemContent :: string
  userContent :: string
  requestTemperature :: int
  max_tokens :: nat

text \<open>
  What one call of \<open>openai.chat.completions.create\<close> comes to where the generator reads it with
  \<open>response.choices[0].message.content\<close>: the promise is rejected with an error; or it is
  resolved and the content is read, a string or, when the message carries no text, \<open>null\<close>,
  \<open>undefined\<close> or another value of the response; or it is resolved with a response that has no
  \<open>choices[0].message\<close>, and reading the content throws a \<open>TypeError\<close>.
\<close>

datatype chatResponse = Resolved jsval | NoMessage | Rejected js_error

record article =
  Title :: string
  Content :: string
  WordCount :: nat
  RecipeData :: "recipeData option"

text \<open>
  The chat completion service is outside the program. It is a function from the number of
  the call and the request to the outcome of that call, so that every sequence of outcomes is
  covered; the list of requests sent so far is the state that the generator passes along.
  \<open>chatCreate\<close> is one \<open>await\<close> of the call together with the reading of the content that
  follows it at once. The temperature is only handed on.
\<close>

definition chatCreate ::
  "(nat \<Rightarrow> chatRequest \<Rightarrow> chatResponse) \<Rightarrow> chatRequest \<Rightarrow> chatRequest list
     \<Rightarrow> (js_error + jsval) \<times> chatRequest list" where
  "chatCreate openai request calls =
     (case openai (length calls) request of
        Resolved content \<Rightarrow> (Inr content, calls @ [request])
      | NoMessage \<Rightarrow> (Inl TypeError, calls @ [request])
      | Rejected e \<Rightarrow> (Inl e, calls @ [request]))"

text \<open>
  \<open>minWords\<close> is a natural number below \<open>2^53\<close>. \<open>Math.floor(minWords * 0.2)\<close> multiplies two
  doubles: \<open>0.2\<close> is the double \<open>3602879701896397 / 2^54\<close> and \<open>0.6\<close> is
  \<open>5404319552844595 / 2^53\<close>; the exact product is rounded to 53 significant bits, ties to
  even, and the result is floored. For large \<open>minWords\<close> this is not the integer quotient:
  \<open>Math.floor(7000000000000004 * 0.2)\<close> is \<open>1400000000000001\<close>.
\<close>

function bitLength :: "int \<Rightarrow> nat" where
  "bitLength n = (if n \<le> 0 then 0 else Suc (bitLength (n div 2)))"
  by pat_completeness auto

termination by (relation "measure nat") auto

declare bitLength.simps [simp del]

definition floorTimes :: "int \<Rightarrow> nat \<Rightarrow> int \<Rightarrow> int" where
  \<comment> \<open>\<open>Math.floor(n * c)\<close> for the double \<open>c = m / 2^k\<close> and an integer \<open>0 \<le> n < 2^53\<close>\<close>
  "floorTimes m k n =
     (let p = n * m;
          shift = bitLength p - 53;
          q = p div 2 ^ shift;
          r = p mod 2 ^ shift;
          rounded = (if 2 * r > 2 ^ shift \<or> (2 * r = 2 ^ shift \<and> q mod 2 = 1) then q + 1 else q)
      in (rounded * 2 ^ shift) div 2 ^ k)"

definition floorFifth :: "nat \<Rightarrow> nat" where
  \<comment> \<open>\<open>Math.floor(minWords * 0.2)\<close>\<close>
  "floorFifth minWords = nat (floorTimes 3602879701896397 54 (int minWords))"

definition floorThreeFifths :: "nat \<Rightarrow> nat" where
  \<comment> \<open>\<open>Math.floor(minWords * 0.6)\<close>\<close>
  "floorThreeFifths minWords = nat (floorTimes 5404319552844595 53 (int minWords))"

definition defaultContentPrompt :: "string \<Rightarrow> nat \<Rightarrow> string" where
  \<open>defaultContentPrompt keyword minWords =
     ''Write a comprehensive, engaging, and SEO-optimized article about "'' @ keyword @ ''" that follows these guidelines:\<newline>      \<newline>      1. The article should be at least '' @ showNat minWords @ '' words\<newline>      2. Use proper WordPress formatting with H2 and H3 headings (no H1 as that's for the title)\<newline>      3. Include a compelling introduction that hooks the reader\<newline>      4. Break down the topic into logical sections with descriptive headings\<newline>      5. Include practical tips, examples, and actionable advice\<newline>      6. Add a conclusion that summarizes key points\<newline>      7. Optimize for SEO with natural keyword usage\<newline>      8. Make the content valuable and informative for the reader\<newline>      \<newline>      Format the article with proper HTML tags:\<newline>      - Use <h2> for main section headings\<newline>      - Use <h3> for subsection headings\<newline>      - Use <p> for paragraphs\<newline>      - Use <ul> and <li> for bullet points where appropriate\<newline>      - Use <ol> and <li> for numbered lists where appropriate\<newline>      \<newline>      Write in a conversational, authoritative tone that engages the reader.''\<close>

definition baseSystemMessage :: string where
  \<open>baseSystemMessage =
     ''You are a professional content writer specializing in SEO-optimized articles that follow WordPress formatting standards.''\<close>

definition toneDirective :: "string \<Rightarrow> string" where
  \<open>toneDirective tone = ''\<newline>\<newline>Write in the following tone/voice: '' @ tone\<close>

definition seoDirective :: "string \<Rightarrow> string" where
  \<open>seoDirective guidelines =
     ''\<newline>\<newline>Follow these additional SEO guidelines:\<newline>'' @ guidelines\<close>

definition avoidDirective :: "string \<Rightarrow> string" where
  \<open>avoidDirective avoid =
     ''\<newline>\<newline>IMPORTANT: DO NOT mention, include, or reference ANY of the following in your content. This is a strict requirement. DO NOT use ANY of these terms or concepts:\<newline>'' @ avoid\<close>

definition articleFormatDirective :: "string \<Rightarrow> string" where
  \<open>articleFormatDirective layout =
     ''\<newline>\<newline>ARTICLE FORMAT INSTRUCTIONS:\<newline>Follow this specific structure and format for the article:\<newline>'' @ layout\<close>

definition recipeFormatCustom :: "string \<Rightarrow> string" where
  \<open>recipeFormatCustom custom =
     ''\<newline>\<newline>RECIPE FORMAT INSTRUCTIONS:\<newline>'' @ custom\<close>

definition recipeFormatDefault :: string where
  \<open>recipeFormatDefault =
     ''\<newline>\<newline>RECIPE FORMAT INSTRUCTIONS:\<newline>Please format this as a recipe article with the following sections:\<newline>1. A brief introduction about the dish\<newline>2. A "Ingredients" section with a clear, bulleted list (<ul><li>) of all ingredients with quantities\<newline>3. A "Instructions" section with numbered steps (<ol><li>) for preparation\<newline>4. Include preparation time, cooking time, and servings information clearly labeled (e.g., "Prep Time: 15 minutes")\<newline>5. Add a "Tips and Notes" section with helpful advice for making this recipe\<newline>6. If relevant, include nutrition information''\<close>

definition titlePrompt :: "string \<Rightarrow> string" where
  \<open>titlePrompt keyword =
     ''Create an engaging, SEO-friendly title for an article about "'' @ keyword @ ''" that will attract clicks and is optimized for SEO.''\<close>

definition titleAvoidDirective :: "string \<Rightarrow> string" where
  \<open>titleAvoidDirective avoid =
     ''\<newline>\<newline>IMPORTANT: DO NOT use ANY of the following words in the title: '' @ avoid\<close>

definition titleSystemMessage :: string where
  \<open>titleSystemMessage = ''Generate a compelling, SEO-friendly title for this article.''\<close>

definition defaultPart1Prompt :: string where
  \<open>defaultPart1Prompt =
     ''Write an engaging introduction for an article about {keyword}. The introduction should hook the reader, explain why the topic is important, and preview what the article will cover. Use approximately {minWords} words.''\<close>

definition defaultPart2Prompt :: string where
  \<open>defaultPart2Prompt =
     ''Write the main body content for an article about {keyword}. This should include detailed information, breakdown of the topic into logical sections with appropriate H2 and H3 headings, practical tips, examples, and actionable advice. Use approximately {minWords} words.''\<close>

definition defaultPart3Prompt :: string where
  \<open>defaultPart3Prompt =
     ''Write a conclusion for an article about {keyword}. The conclusion should summarize the key points, provide final thoughts, and possibly include a call to action. Use approximately {minWords} words.''\<close>

definition introFocus :: "string \<Rightarrow> string" where
  \<open>introFocus formatInstructions =
     formatInstructions @ ''\<newline>\<newline>Focus on writing the introduction part while keeping the overall article format in mind.''\<close>

definition bodyFocus :: "string \<Rightarrow> string" where
  \<open>bodyFocus formatInstructions =
     formatInstructions @ ''\<newline>\<newline>Ensure you follow this structure while creating the main body content.''\<close>

definition conclusionFocus :: "string \<Rightarrow> string" where
  \<open>conclusionFocus formatInstructions =
     formatInstructions @ ''\<newline>\<newline>Focus on writing the conclusion part according to this format.''\<close>

definition recipeKeyword :: "string \<Rightarrow> bool" where
  \<comment> \<open>\<open>keyword.toLowerCase().match(/recipe|dish|cook|.../)\<close>\<close>
  "recipeKeyword keyword \<longleftrightarrow>
     list_ex (\<lambda>word. js_includes (toLowerCase keyword) word)
       [''recipe'', ''dish'', ''cook'', ''bake'', ''food'', ''meal'', ''breakfast'', ''lunch'',
        ''dinner'', ''dessert'', ''appetizer'', ''snack'']"

definition suppress :: "(string \<Rightarrow> json list option) \<Rightarrow> string \<Rightarrow> string \<Rightarrow> js_error + string" where
  \<comment> \<open>\<open>if (thingsToAvoid) text = removeProhibitedContent(text, thingsToAvoid)\<close>\<close>
  "suppress jsonParse avoid text =
     (if avoid \<noteq> [] then removeProhibitedContent jsonParse text avoid else Inr text)"

text \<open>
  The content of a response need not be a string. \<open>removeProhibitedContent\<close> does not look
  at it before the terms are parsed; then \<open>content.replace\<close> is called once for each term,
  and \<open>replace\<close> is a method of strings only.
\<close>

definition removeProhibitedFrom :: "(string \<Rightarrow> json list option) \<Rightarrow> jsval \<Rightarrow> string \<Rightarrow> js_error + jsval" where
  "removeProhibitedFrom jsonParse content avoid =
     (case content of
        JStr text \<Rightarrow>
          (case removeProhibitedContent jsonParse text avoid of
             Inl e \<Rightarrow> Inl e
           | Inr text' \<Rightarrow> Inr (JStr text'))
      | _ \<Rightarrow>
          (case avoidTerms jsonParse avoid of
             Inl e \<Rightarrow> Inl e
           | Inr terms \<Rightarrow> if terms = [] then Inr content else Inl TypeError))"

definition suppressValue :: "(string \<Rightarrow> json list option) \<Rightarrow> string \<Rightarrow> jsval \<Rightarrow> js_error + jsval" where
  \<comment> \<open>\<open>if (thingsToAvoid) content = removeProhibitedContent(content, thingsToAvoid)\<close>\<close>
  "suppressValue jsonParse avoid content =
     (if avoid \<noteq> [] then removeProhibitedFrom jsonParse content avoid else Inr content)"

definition formatInstructionsFor :: "string \<Rightarrow> promptSettings \<Rightarrow> string" where
  \<comment> \<open>\<open>articleFormatInstructions + recipeFormatInstructions\<close> of the multi-part generator\<close>
  "formatInstructionsFor keyword promptSettings =
     (if useArticleFormat promptSettings \<and> articleFormat promptSettings \<noteq> []
      then articleFormatDirective (articleFormat promptSettings) else [])
     @ (if enableRecipeDetection promptSettings \<and> recipeKeyword keyword
        then (if recipeFormatPrompt promptSettings \<noteq> []
              then recipeFormatCustom (recipeFormatPrompt promptSettings)
              else recipeFormatDefault)
        else [])"

definition generateArticlePart ::
  "(nat \<Rightarrow> chatRequest \<Rightarrow> chatResponse) \<Rightarrow> (string \<Rightarrow> json list option) \<Rightarrow> openaiConfig
     \<Rightarrow> string \<Rightarrow> nat \<Rightarrow> string \<Rightarrow> string \<Rightarrow> promptSettings \<Rightarrow> string \<Rightarrow> chatRequest list
     \<Rightarrow> (js_error + jsval) \<times> chatRequest list" where
  "generateArticlePart openai jsonParse openaiConfig keyword wordCount promptTemplate
       systemMessage promptSettings formatInstructions calls =
     (let prompt1 = applyPromptVariables promptTemplate
                      [(''keyword'', keyword), (''minWords'', showNat wordCount)];
          prompt2 = (if seoGuidelines promptSettings \<noteq> []
                     then prompt1 @ seoDirective (seoGuidelines promptSettings) else prompt1);
          prompt3 = (if thingsToAvoid promptSettings \<noteq> []
                     then prompt2 @ avoidDirective (thingsToAvoid promptSettings) else prompt2);
          prompt4 =
            (if formatInstructions \<noteq> []
             then (if js_includes prompt3 ''introduction for an article''
                   then prompt3 @ introFocus formatInstructions
                   else if js_includes prompt3 ''main body content''
                   then prompt3 @ bodyFocus formatInstructions
                   else if js_includes prompt3 ''conclusion for an article''
                   then prompt3 @ conclusionFocus formatInstructions
                   else prompt3 @ formatInstructions)
             else prompt3);
          request = \<lparr> requestModel = modelName openaiConfig, systemContent = systemMessage,
                      userContent = prompt4, requestTemperature = temperature openaiConfig,
                      max_tokens = min 2000 (maxTokens openaiConfig) \<rparr>
      in case chatCreate openai request calls of
           (Inl e, calls1) \<Rightarrow> (Inl e, calls1)
         | (Inr content, calls1) \<Rightarrow>
             (suppressValue jsonParse (thingsToAvoid promptSettings) content, calls1))"

definition generateTitle ::
  "(nat \<Rightarrow> chatRequest \<Rightarrow> chatResponse) \<Rightarrow> (string \<Rightarrow> json list option) \<Rightarrow> openaiConfig
     \<Rightarrow> string \<Rightarrow> string \<Rightarrow> chatRequest list \<Rightarrow> (js_error + string) \<times> chatRequest list" where
  \<comment> \<open>the title call and its clean-up, written out twice in the source;
      \<open>content.replace(/"/g, '')\<close> throws when the content is not a string\<close>
  "generateTitle openai jsonParse openaiConfig keyword avoid calls =
     (let fullTitlePrompt =
            (if avoid \<noteq> [] then titlePrompt keyword @ titleAvoidDirective avoid
             else titlePrompt keyword);
          request = \<lparr> requestModel = modelName openaiConfig, systemContent = titleSystemMessage,
                      userContent = fullTitlePrompt, requestTemperature = temperature openaiConfig,
                      max_tokens = 50 \<rparr>
      in case chatCreate openai request calls of
           (Inl e, calls1) \<Rightarrow> (Inl e, calls1)
         | (Inr content, calls1) \<Rightarrow>
             (case content of
                JStr text \<Rightarrow> suppress jsonParse avoid (filter (\<lambda>c. c \<noteq> CHR 0x22) text)
              | _ \<Rightarrow> Inl TypeError,
              calls1))"

definition makeArticle :: "string \<Rightarrow> string \<Rightarrow> bool \<Rightarrow> string \<Rightarrow> article" where
  "makeArticle title content detect keyword =
     \<lparr> Title = title, Content = content, WordCount = countWords content,
       RecipeData = (if detect then extractRecipeData content keyword else None) \<rparr>"

definition finishArticle :: "string \<Rightarrow> jsval \<Rightarrow> bool \<Rightarrow> string \<Rightarrow> js_error + article" where
  \<comment> \<open>the end of the single pass: \<open>countWords(content)\<close> in the log line calls \<open>content.split\<close>,
      which throws when the content is not a string\<close>
  "finishArticle title content detect keyword =
     (case content of
        JStr text \<Rightarrow> Inr (makeArticle title text detect keyword)
      | _ \<Rightarrow> Inl TypeError)"

definition generateMultiPartArticle ::
  "(nat \<Rightarrow> chatRequest \<Rightarrow> chatResponse) \<Rightarrow> (string \<Rightarrow> json list option) \<Rightarrow> openaiConfig
     \<Rightarrow> string \<Rightarrow> nat \<Rightarrow> promptSettings \<Rightarrow> chatRequest list
     \<Rightarrow> (js_error + article) \<times> chatRequest list" where
  "generateMultiPartArticle openai jsonParse openaiConfig keyword minWords promptSettings calls =
     (let systemMessage =
            (if toneVoice promptSettings \<noteq> []
             then baseSystemMessage @ toneDirective (toneVoice promptSettings)
             else baseSystemMessage);
          formatInstructions = formatInstructionsFor keyword promptSettings;
          introWordCount = floorFifth minWords;
          bodyWordCount = floorThreeFifths minWords;
          conclusionWordCount = floorFifth minWords;
          part = (\<lambda>wordCount custom fallback.
                    generateArticlePart openai jsonParse openaiConfig keyword wordCount
                      (if custom \<noteq> [] then custom else fallback)
                      systemMessage promptSettings formatInstructions)
      in case part introWordCount (part1Prompt promptSettings) defaultPart1Prompt calls of
           (Inl e, calls1) \<Rightarrow> (Inl e, calls1)
         | (Inr introPart, calls1) \<Rightarrow>
       (case part bodyWordCount (part2Prompt promptSettings) defaultPart2Prompt calls1 of
           (Inl e, calls2) \<Rightarrow> (Inl e, calls2)
         | (Inr bodyPart, calls2) \<Rightarrow>
       (case part conclusionWordCount (part3Prompt promptSettings) defaultPart3Prompt calls2 of
           (Inl e, calls3) \<Rightarrow> (Inl e, calls3)
         | (Inr conclusionPart, calls3) \<Rightarrow>
       (case toStringJS introPart of
           Inl e \<Rightarrow> (Inl e, calls3)
         | Inr introText \<Rightarrow>
       (case toStringJS bodyPart of
           Inl e \<Rightarrow> (Inl e, calls3)
         | Inr bodyText \<Rightarrow>
       (case toStringJS conclusionPart of
           Inl e \<Rightarrow> (Inl e, calls3)
         | Inr conclusionText \<Rightarrow>
       (case suppress jsonParse (thingsToAvoid promptSettings)
               (introText @ [CHR 0x0A, CHR 0x0A] @ bodyText @ [CHR 0x0A, CHR 0x0A] @ conclusionText) of
           Inl e \<Rightarrow> (Inl e, calls3)
         | Inr combinedContent \<Rightarrow>
       (case generateTitle openai jsonParse openaiConfig keyword (thingsToAvoid promptSettings) calls3 of
           (Inl e, calls4) \<Rightarrow> (Inl e, calls4)
         | (Inr title, calls4) \<Rightarrow>
             (Inr (makeArticle title combinedContent (enableRecipeDetection promptSettings) keyword),
              calls4)))))))))"

definition generateArticleContent ::
  "(nat \<Rightarrow> chatRequest \<Rightarrow> chatResponse) \<Rightarrow> (string \<Rightarrow> json list option) \<Rightarrow> openaiConfig
     \<Rightarrow> string \<Rightarrow> nat \<Rightarrow> promptSettings option \<Rightarrow> chatRequest list
     \<Rightarrow> (js_error + article) \<times> chatRequest list" where
  "generateArticleContent openai jsonParse openaiConfig keyword minWords promptSettings calls =
     (case promptSettings of
        Some settings \<Rightarrow>
          if useMultiPartGeneration settings
          then generateMultiPartArticle openai jsonParse openaiConfig keyword minWords settings calls
          else
            (let contentPrompt1 =
                   (if mainPrompt settings \<noteq> []
                    then applyPromptVariables (mainPrompt settings)
                           [(''keyword'', keyword), (''minWords'', showNat minWords)]
                    else defaultContentPrompt keyword minWords);
                 systemMessage =
                   (if toneVoice settings \<noteq> []
                    then baseSystemMessage @ toneDirective (toneVoice settings)
                    else baseSystemMessage);
                 contentPrompt2 =
                   (if seoGuidelines settings \<noteq> []
                    then contentPrompt1 @ seoDirective (seoGuidelines settings) else contentPrompt1);
                 contentPrompt3 =
                   (if thingsToAvoid settings \<noteq> []
                    then contentPrompt2 @ avoidDirective (thingsToAvoid settings) else contentPrompt2);
                 contentPrompt4 =
                   (if useArticleFormat settings \<and> articleFormat settings \<noteq> []
                    then contentPrompt3 @ articleFormatDirective (articleFormat settings)
                    else contentPrompt3);
                 contentPrompt5 =
                   (if enableRecipeDetection settings \<and> recipeKeyword keyword
                    then (if recipeFormatPrompt settings \<noteq> []
                          then contentPrompt4 @ recipeFormatCustom (recipeFormatPrompt settings)
                          else contentPrompt4 @ recipeFormatDefault)
                    else contentPrompt4);
                 request = \<lparr> requestModel = modelName openaiConfig, systemContent = systemMessage,
                             userContent = contentPrompt5,
                             requestTemperature = temperature openaiConfig,
                             max_tokens = maxTokens openaiConfig \<rparr>
             in case chatCreate openai request calls of
                  (Inl e, calls1) \<Rightarrow> (Inl e, calls1)
                | (Inr response, calls1) \<Rightarrow>
              (case suppressValue jsonParse (thingsToAvoid settings) response of
                  Inl e \<Rightarrow> (Inl e, calls1)
                | Inr content \<Rightarrow>
              (case generateTitle openai jsonParse openaiConfig keyword (thingsToAvoid settings) calls1 of
                  (Inl e, calls2) \<Rightarrow> (Inl e, calls2)
                | (Inr title, calls2) \<Rightarrow>
                    (finishArticle title content (enableRecipeDetection settings) keyword,
                     calls2))))
      | None \<Rightarrow>
          (let request = \<lparr> requestModel = modelName openaiConfig, systemContent = baseSystemMessage,
                             userContent = defaultContentPrompt keyword minWords,
                             requestTemperature = temperature openaiConfig,
                             max_tokens = maxTokens openaiConfig \<rparr>
           in case chatCreate openai request calls of
                (Inl e, calls1) \<Rightarrow> (Inl e, calls1)
              | (Inr content, calls1) \<Rightarrow>
            (case generateTitle openai jsonParse openaiConfig keyword [] calls1 of
                (Inl e, calls2) \<Rightarrow> (Inl e, calls2)
              | (Inr title, calls2) \<Rightarrow>
                  (finishArticle title content False keyword, calls2))))"


section \<open>Notions used in the proofs\<close>

text \<open>Token starts counted from the left; \<open>prev\<close> tells whether a token may start at once.\<close>

fun countStarts :: "bool \<Rightarrow> string \<Rightarrow> nat" where
  "countStarts prev [] = 0"
| "countStarts prev (c # cs) = (if \<not> isSpace c \<and> prev then 1 else 0) + countStarts (isSpace c) cs"

definition startsFrom :: "bool \<Rightarrow> string \<Rightarrow> nat set" where
  "startsFrom prev s =
     {i. i < length s \<and> \<not> isSpace (s ! i) \<and> (if i = 0 then prev else isSpace (s ! (i - 1)))}"

definition isLower :: "string \<Rightarrow> bool" where
  "isLower s \<longleftrightarrow> toLowerCase s = s"

definition rangeOK :: "string \<Rightarrow> bool" where
  "rangeOK rng \<longleftrightarrow>
     (rng = [] \<or>
      (\<exists>a b hi. rng = a @ ''to'' @ b @ hi \<and> a \<noteq> [] \<and> allSpace a
                \<and> b \<noteq> [] \<and> allSpace b \<and> hi \<noteq> [] \<and> allDigits hi))"

text \<open>
  A time phrase read as its first number and its unit, and a position before which no time
  phrase starts. \<open>timeRegex\<close> is the pattern that \<open>extractTime\<close> takes for a type.
\<close>

definition timeReading :: "string set \<Rightarrow> string \<Rightarrow> string \<Rightarrow> string \<Rightarrow> bool" where
  "timeReading F w lo unit \<longleftrightarrow>
     (\<exists>first ws1 colon ws2 rng ws3.
        w = first @ ws1 @ ''time'' @ colon @ ws2 @ lo @ rng @ ws3 @ unit
        \<and> first \<in> F \<and> ws1 \<noteq> [] \<and> allSpace ws1
        \<and> (colon = [] \<or> colon = '':'') \<and> allSpace ws2
        \<and> lo \<noteq> [] \<and> allDigits lo \<and> rangeOK rng
        \<and> ws3 \<noteq> [] \<and> allSpace ws3 \<and> (unit = ''minutes'' \<or> unit = ''hours''))"

definition noPhraseBefore :: "string set \<Rightarrow> string \<Rightarrow> nat \<Rightarrow> bool" where
  "noPhraseBefore F s n \<longleftrightarrow>
     (\<forall>pre w post. s = pre @ w @ post \<and> timePhrase F w \<longrightarrow> n \<le> length pre)"

definition timeRegex :: "string \<Rightarrow> string \<Rightarrow> (string \<times> string option \<times> string) option" where
  "timeRegex timeType =
     (if timeType = ''prep'' then prepRegex
      else if timeType = ''cook'' then cookRegex
      else if timeType = ''total'' then totalRegex
      else (\<lambda>s. None))"

text \<open>
  A call fails when its promise is rejected, with that error, or when the response has no
  message to read, with the \<open>TypeError\<close> of the reading. An outcome of the generator is
  fail-fast from \<open>calls0\<close> on when every call added after \<open>calls0\<close> that failed is the last
  call, and its error is the result.
\<close>

fun failure :: "chatResponse \<Rightarrow> js_error option" where
  "failure (Rejected e) = Some e"
| "failure NoMessage = Some TypeError"
| "failure (Resolved content) = None"

definition failFast ::
  "(nat \<Rightarrow> chatRequest \<Rightarrow> chatResponse) \<Rightarrow> chatRequest list
     \<Rightarrow> (js_error + 'a) \<times> chatRequest list \<Rightarrow> bool" where
  "failFast openai calls0 outcome \<longleftrightarrow>
     prefix calls0 (snd outcome) \<and>
     (\<forall>i e. length calls0 \<le> i \<and> i < length (snd outcome)
            \<and> failure (openai i (snd outcome ! i)) = Some e
            \<longrightarrow> fst outcome = Inl e \<and> Suc i = length (snd outcome))"

text \<open>An outcome is counted when the article it returns, if any, carries the count of its content.\<close>

definition counted :: "(js_error + article) \<times> chatRequest list \<Rightarrow> bool" where
  "counted outcome \<longleftrightarrow>
     (\<forall>art. fst outcome = Inr art \<longrightarrow> WordCount art = countWords (Content art))"

text \<open>Inputs of the examples.\<close>

definition exampleConfig :: openaiConfig where
  "exampleConfig = \<lparr> apiKey = ''key'', modelName = ''gpt-4'', temperature = 1, maxTokens = 4000 \<rparr>"

definition exampleSettings :: promptSettings where
  \<open>exampleSettings =
     \<lparr> useMultiPartGeneration = True, mainPrompt = [], part1Prompt = [], part2Prompt = [],
       part3Prompt = ''Conclude {keyword} in {minWords} words'', toneVoice = ''warm'',
       seoGuidelines = [], thingsToAvoid = ''foo, "bar baz", qux'', articleFormat = [],
       useArticleFormat = False, enableRecipeDetection = True, recipeFormatPrompt = [] \<rparr>\<close>

definition failingService :: "nat \<Rightarrow> chatRequest \<Rightarrow> chatResponse" where
  \<comment> \<open>the second call is rejected\<close>
  "failingService i request =
     (if i = 1 then Rejected (ApiError ''rate limit'')
      else Resolved (JStr ''<p>Hello foo world</p>''))"

definition helloService :: "nat \<Rightarrow> chatRequest \<Rightarrow> chatResponse" where
  "helloService i request = Resolved (JStr ''<p>Hello world</p>'')"

definition nullService :: "nat \<Rightarrow> chatRequest \<Rightarrow> chatResponse" where
  \<comment> \<open>the first call is resolved with a message without text\<close>
  "nullService i request = (if i = 0 then Resolved JNull else Resolved (JStr ''Hello''))"

definition shortSettings :: promptSettings where
  \<open>shortSettings =
     \<lparr> useMultiPartGeneration = True, mainPrompt = [], part1Prompt = ''Open {keyword}'',
       part2Prompt = ''Tell {keyword} in {minWords} words'', part3Prompt = ''Close {keyword}'',
       toneVoice = [], seoGuidelines = [], thingsToAvoid = [], articleFormat = [],
       useArticleFormat = False, enableRecipeDetection = False, recipeFormatPrompt = [] \<rparr>\<close>

definition noJson :: "string \<Rightarrow> json list option" where
  "noJson text = None"

definition avoidExample :: string where
  \<open>avoidExample = ''foo, "bar baz", qux''\<close>


section \<open>Facts about strings\<close>

lemma of_char_lower: "(of_char (toLowerChar c) :: nat) = (if isUpper c then of_char c + 32 else of_char c)"
  by (auto simp: toLowerChar_def isUpper_def Let_def)
lemma lower_notupper: "\<not> isUpper (toLowerChar c)"
  unfolding isUpper_def[of "toLowerChar c"] Let_def of_char_lower
  by (auto simp: isUpper_def Let_def)
lemma lower_idem [simp]: "toLowerChar (toLowerChar c) = toLowerChar c"
  using lower_notupper[of c] by (simp add: toLowerChar_def[of "toLowerChar c"])
lemma toLowerCase_idem [simp]: "toLowerCase (toLowerCase s) = toLowerCase s"
  by (simp add: toLowerCase_def)

lemma isLower_toLowerCase [simp]: "isLower (toLowerCase s)" by (simp add: isLower_def)
lemma isLower_append [simp]: "isLower (a @ b) \<longleftrightarrow> isLower a \<and> isLower b"
  by (auto simp: isLower_def toLowerCase_def)
lemma isLower_Cons [simp]: "isLower (c # s) \<longleftrightarrow> toLowerChar c = c \<and> isLower s"
  by (auto simp: isLower_def toLowerCase_def)
lemma isLower_drop: "isLower s \<Longrightarrow> isLower (drop n s)"
  by (metis append_take_drop_id isLower_append)
lemma isLower_dropWhile: "isLower s \<Longrightarrow> isLower (dropWhile P s)"
  by (metis takeWhile_dropWhile_id isLower_append)
lemma isLower_take: "isLower s \<Longrightarrow> isLower (take n s)"
  by (metis append_take_drop_id isLower_append)



section \<open>The word count\<close>

lemma startsFrom_Cons:
  "startsFrom prev (c # cs) = (if \<not> isSpace c \<and> prev then {0} else {}) \<union> Suc ` startsFrom (isSpace c) cs"
proof (rule set_eqI)
  fix i
  show "i \<in> startsFrom prev (c # cs) \<longleftrightarrow> i \<in> (if \<not> isSpace c \<and> prev then {0} else {}) \<union> Suc ` startsFrom (isSpace c) cs"
  proof (cases i)
    case 0
    then show ?thesis by (auto simp: startsFrom_def)
  next
    case (Suc j)
    then show ?thesis by (cases j) (auto simp: startsFrom_def image_iff)
  qed
qed

lemma finite_startsFrom: "finite (startsFrom prev s)"
  by (simp add: startsFrom_def)

lemma countStarts_card: "countStarts prev s = card (startsFrom prev s)"
proof (induction s arbitrary: prev)
  case Nil
  then show ?case by (simp add: startsFrom_def)
next
  case (Cons c cs)
  have a: "card (insert 0 (Suc ` A)) = Suc (card A)" if "finite A" for A :: "nat set"
    using that by (subst card_insert_disjoint) (auto simp: card_image)
  show ?case using Cons.IH[of "isSpace c"] a[OF finite_startsFrom]
    by (auto simp: startsFrom_Cons card_image)
qed

lemma countStarts_nonspace: "\<forall>c\<in>set p. \<not> isSpace c \<Longrightarrow> countStarts False (p @ r) = countStarts False r"
  by (induction p) auto

lemma countStarts_space: "\<forall>c\<in>set sp. isSpace c \<Longrightarrow> sp \<noteq> [] \<Longrightarrow> countStarts prev (sp @ r) = countStarts True r"
proof (induction sp arbitrary: prev)
  case Nil then show ?case by simp
next
  case (Cons c cs)
  then show ?case by (cases cs) auto
qed

lemma countWords_countStarts: "countWords s = countStarts True s"
proof (induction s rule: splitWhitespace.induct)
  case (1 s)
  define piece where "piece = takeWhile (\<lambda>c. \<not> isSpace c) s"
  define rest where "rest = dropWhile (\<lambda>c. \<not> isSpace c) s"
  define sp where "sp = takeWhile isSpace rest"
  define rest' where "rest' = dropWhile isSpace rest"
  have s: "s = piece @ rest" by (simp add: piece_def rest_def)
  have split_eq: "splitWhitespace s = (if rest = [] then [piece] else piece # splitWhitespace rest')"
    by (subst splitWhitespace.simps) (simp add: Let_def piece_def rest_def rest'_def)
  have pn: "\<forall>c\<in>set piece. \<not> isSpace c"
    using set_takeWhileD[of _ "\<lambda>c. \<not> isSpace c" s] by (auto simp: piece_def)
  have pc: "countStarts True (piece @ r) = (if piece = [] then countStarts True r else 1 + countStarts False r)" for r
  proof (cases piece)
    case Nil then show ?thesis by simp
  next
    case (Cons c cs)
    then show ?thesis using pn countStarts_nonspace[of cs r] by auto
  qed
  show ?case
  proof (cases "rest = []")
    case True
    then show ?thesis using pc[of "[]"] s split_eq by (simp add: countWords_def)
  next
    case False
    have r: "rest = sp @ rest'" by (simp add: sp_def rest'_def)
    have "isSpace (hd rest)" using False hd_dropWhile[of "\<lambda>c. \<not> isSpace c" s] by (simp add: rest_def)
    then have spne: "sp \<noteq> []" using False by (cases rest) (auto simp: sp_def)
    have spa: "\<forall>c\<in>set sp. isSpace c" using set_takeWhileD[of _ isSpace rest] by (auto simp: sp_def)
    have IH: "countWords rest' = countStarts True rest'"
      using "1.IH"[OF refl refl] False by (simp add: rest'_def rest_def)
    have "countWords s = (if piece = [] then 0 else 1) + countWords rest'"
      using False split_eq by (simp add: countWords_def)
    also have "\<dots> = countStarts True s"
      using IH pc[of rest] countStarts_space[OF spa spne, of _ rest'] s r by auto
    finally show ?thesis .
  qed
qed

lemma countWords_tokenStarts: "countWords s = card (tokenStarts s)"
proof -
  have "tokenStarts s = startsFrom True s"
    by (auto simp: tokenStarts_def startsFrom_def)
  then show ?thesis by (simp add: countWords_countStarts countStarts_card)
qed


section \<open>Prompt variables\<close>

lemma getSubstitution_plain: "CHR ''$'' \<notin> set v \<Longrightarrow> getSubstitution m b a v = v"
  by (induction m b a v rule: getSubstitution.induct) auto

lemma joinWith_Cons_ne: "gs \<noteq> [] \<Longrightarrow> joinWith sep (g # gs) = g @ sep @ joinWith sep gs"
  by (cases gs) auto

lemma joinWith_hd_Cons: "joinWith sep ((c # g) # gs) = c # joinWith sep (g # gs)"
  by simp

lemma replaceToken_decomp:
  assumes "CHR ''$'' \<notin> set v"
  shows "\<exists>gs. gs \<noteq> [] \<and> s = joinWith (''{'' @ key @ ''}'') gs
            \<and> (\<forall>g\<in>set gs. \<not> js_includes g (''{'' @ key @ ''}''))
            \<and> replaceToken key v pre s = joinWith v gs"
  using assms
proof (induction key v pre s rule: replaceToken.induct)
  case (1 key val pre s)
  define token where "token = ''{'' @ key @ ''}''"
  have tne: "token \<noteq> []" by (simp add: token_def)
  have teq: "CHR ''{'' # key @ ''}'' = token" by (simp add: token_def)
  have tlen: "Suc (Suc (length key)) = length token" by (simp add: token_def)
  note nd = \<open>CHR ''$'' \<notin> set val\<close>
  show ?case
  proof (cases "s = []")
    case True
    have "replaceToken key val pre [] = []" by (subst replaceToken.simps) simp
    then show ?thesis using True tne
      by (intro exI[of _ "[[]]"]) (simp add: js_includes_def token_def)
  next
    case False
    show ?thesis
    proof (cases "prefix token s")
      case True
      define s' where "s' = drop (length token) s"
      have s: "s = token @ s'" using True by (auto simp: s'_def prefix_def)
      from "1.IH"(1)[OF token_def False True nd]
      obtain gs where gs: "gs \<noteq> []" "s' = joinWith token gs"
        "\<forall>g\<in>set gs. \<not> js_includes g token"
        "replaceToken key val (pre @ token) s' = joinWith val gs"
        by (auto simp: s'_def token_def)
      have r: "replaceToken key val pre s = val @ replaceToken key val (pre @ token) s'"
        using False True nd
        by (subst replaceToken.simps) (simp add: Let_def teq tlen s'_def getSubstitution_plain)
      show ?thesis
        using gs s r tne joinWith_Cons_ne[OF gs(1), of _ "[]"] unfolding token_def[symmetric]
        by (intro exI[of _ "[] # gs"]) (simp del: joinWith.simps add: js_includes_def)
    next
      case np: False
      obtain c s' where s: "s = c # s'" using False by (cases s) auto
      from "1.IH"(2)[OF token_def False np nd]
      obtain gs where gs: "gs \<noteq> []" "s' = joinWith token gs"
        "\<forall>g\<in>set gs. \<not> js_includes g token"
        "replaceToken key val (pre @ [c]) s' = joinWith val gs"
        by (auto simp: s token_def)
      obtain g gs' where ggs: "gs = g # gs'" using gs(1) by (cases gs) auto
      have r: "replaceToken key val pre s = c # replaceToken key val (pre @ [c]) s'"
        using False np
        by (subst replaceToken.simps) (simp add: Let_def teq tlen s)
      have "prefix (c # g) s" using s gs(2) ggs by simp
      then have "\<not> prefix token (c # g)" using np prefix_order.trans by blast
      then have "\<not> js_includes (c # g) token" using gs(3) ggs
        by (simp add: js_includes_def sublist_Cons_right)
      then show ?thesis
        using gs s r ggs unfolding token_def[symmetric]
        by (intro exI[of _ "(c # g) # gs'"]) simp
    qed
  qed
qed

text \<open>no token is left when the value has no brace and is no piece of the key\<close>

lemma no_token_join:
  assumes v: "CHR ''{'' \<notin> set v" "CHR ''}'' \<notin> set v" "\<not> sublist v name"
    and nm: "CHR ''{'' \<notin> set name" "CHR ''}'' \<notin> set name"
    and gs: "\<forall>g\<in>set gs. \<not> sublist (''{'' @ name @ ''}'') g"
  shows "\<not> sublist (''{'' @ name @ ''}'') (joinWith v gs)"
  using gs
proof (induction gs)
  case Nil
  then show ?case by simp
next
  case (Cons g gs)
  define tok where "tok = ''{'' @ name @ ''}''"
  show ?case
  proof (cases "gs = []")
    case True
    then show ?thesis using Cons.prems by simp
  next
    case False
    define rest where "rest = joinWith v gs"
    have j: "joinWith v (g # gs) = g @ v @ rest" unfolding rest_def by (rule joinWith_Cons_ne[OF False])
    have nr: "\<not> sublist tok rest" using Cons by (simp add: rest_def tok_def)
    have ng: "\<not> sublist tok g" using Cons.prems by (simp add: tok_def)
    have nv: "\<not> sublist tok v"
    proof
      assume "sublist tok v"
      then have "set tok \<subseteq> set v" by (auto simp: sublist_def)
      then show False using v by (auto simp: tok_def)
    qed
    have nvr: "\<not> sublist tok (v @ rest)"
    proof
      assume "sublist tok (v @ rest)"
      then obtain t1 t2 where t: "tok = t1 @ t2" "suffix t1 v" "prefix t2 rest"
        using nv nr by (auto simp: sublist_append)
      show False
      proof (cases t1)
        case Nil
        then show ?thesis using t nr prefix_imp_sublist[of tok rest] by simp
      next
        case (Cons a as)
        then have "a = CHR ''{''" using t(1) by (simp add: tok_def)
        moreover have "a \<in> set v" using t(2) Cons by (auto simp: suffix_def)
        ultimately show ?thesis using v by simp
      qed
    qed
    show ?thesis
    proof
      assume "sublist (''{'' @ name @ ''}'') (joinWith v (g # gs))"
      then have "sublist tok (g @ (v @ rest))" unfolding j tok_def .
      then obtain t1 t2 where t: "tok = t1 @ t2" "suffix t1 g" "prefix t2 (v @ rest)"
        using ng nvr by (auto simp: sublist_append)
      have t1ne: "t1 \<noteq> []" using t nvr prefix_imp_sublist[of tok "v @ rest"] by auto
      have t2ne: "t2 \<noteq> []" using t ng suffix_imp_sublist[of tok g] by auto
      have "last tok = CHR ''}''" by (simp add: tok_def)
      then have lt: "last t2 = CHR ''}''" using t(1) t2ne by simp
      from t(3) have "prefix t2 v \<or> (\<exists>t3. t2 = v @ t3 \<and> prefix t3 rest)"
        by (auto simp: prefix_append)
      then show False
      proof
        assume "prefix t2 v"
        then have "last t2 \<in> set v" using t2ne by (auto simp: prefix_def)
        then show False using v lt by simp
      next
        assume "\<exists>t3. t2 = v @ t3 \<and> prefix t3 rest"
        then obtain t3 where t3: "t2 = v @ t3" by blast
        have t3ne: "t3 \<noteq> []"
        proof
          assume "t3 = []"
          then have "last t2 \<in> set v" using t3 t2ne by auto
          then show False using v lt by simp
        qed
        obtain a as where t1: "t1 = a # as" using t1ne by (cases t1) auto
        obtain bs b where t3': "t3 = bs @ [b]" using t3ne by (cases t3 rule: rev_cases) auto
        have "''{'' @ name @ ''}'' = (a # as) @ v @ bs @ [b]" using t(1) t3 t1 t3' by (simp add: tok_def)
        then have "name = as @ v @ bs" by simp
        then show False using v(3) by (auto simp: sublist_def)
      qed
    qed
  qed
qed


section \<open>Times\<close>

lemma ciPrefix_lower: "isLower p \<Longrightarrow> isLower s \<Longrightarrow> ciPrefix p s \<longleftrightarrow> prefix p s"
  by (induction p s rule: ciPrefix.induct) (auto simp: isLower_Cons ciEq_def)

lemma litCI_lower: "isLower p \<Longrightarrow> isLower s \<Longrightarrow> litCI p s = Some r \<longleftrightarrow> s = p @ r"
  by (auto simp: litCI_def ciPrefix_lower prefix_def)

lemma spaces1_Some: "spaces1 s = Some r \<Longrightarrow> \<exists>ws. s = ws @ r \<and> ws \<noteq> [] \<and> allSpace ws"
  apply (auto simp: spaces1_def allSpace_def split: if_splits)
  apply (rule exI[of _ "takeWhile isSpace s"])
  apply (cases s)
   apply (auto dest: set_takeWhileD)
  done

lemma digits1_Some: "digits1 s = Some (d, r) \<Longrightarrow> s = d @ r \<and> d \<noteq> [] \<and> allDigits d"
  by (auto simp: digits1_def allDigits_def Let_def split: if_splits dest: set_takeWhileD)

lemma firstMatch_Some: "firstMatch m s = Some r \<Longrightarrow> \<exists>pre rest. s = pre @ rest \<and> m rest = Some r"
proof (induction s)
  case Nil then show ?case by simp
next
  case (Cons c cs)
  show ?case
  proof (cases "m (c # cs)")
    case None
    then obtain pre rest where "cs = pre @ rest" "m rest = Some r" using Cons by auto
    then show ?thesis by (intro exI[of _ "c # pre"] exI[of _ rest]) simp
  next
    case (Some a)
    then show ?thesis using Cons.prems by (intro exI[of _ "[]"] exI[of _ "c # cs"]) simp
  qed
qed

lemma optionally_Some: "optionally p k s = Some x \<Longrightarrow> (\<exists>r. p s = Some r \<and> k r = Some x) \<or> k s = Some x"
  by (auto simp: optionally_def split: option.splits)


lemma timeUnit_Some:
  assumes "isLower s" "timeUnit g2 g1 s = Some (a, b, u)"
  shows "a = g1 \<and> b = g2 \<and> (\<exists>ws post. s = ws @ u @ post \<and> ws \<noteq> [] \<and> allSpace ws
            \<and> (u = ''minutes'' \<or> u = ''hours''))"
proof -
  from assms(2) obtain r where r: "spaces1 s = Some r"
    by (auto simp: timeUnit_def split: option.splits)
  then obtain ws where ws: "s = ws @ r" "ws \<noteq> []" "allSpace ws" using spaces1_Some by blast
  have lr: "isLower r" using assms(1) ws by simp
  have lm: "isLower ''minutes''" "isLower ''hours''" by (simp_all add: isLower_def toLowerCase_def toLowerChar_def isUpper_def)
  from assms(2) r have
    "(prefix ''minutes'' r \<and> a = g1 \<and> b = g2 \<and> u = take 7 r) \<or> (prefix ''hours'' r \<and> a = g1 \<and> b = g2 \<and> u = take 5 r)"
    by (auto simp: timeUnit_def ciPrefix_lower[OF lm(1) lr] ciPrefix_lower[OF lm(2) lr] split: if_splits)
  then show ?thesis
  proof
    assume h: "prefix ''minutes'' r \<and> a = g1 \<and> b = g2 \<and> u = take 7 r"
    then obtain post where "r = ''minutes'' @ post" by (auto simp: prefix_def)
    then show ?thesis using h ws by (intro conjI exI[of _ ws] exI[of _ post]) auto
  next
    assume h: "prefix ''hours'' r \<and> a = g1 \<and> b = g2 \<and> u = take 5 r"
    then obtain post where "r = ''hours'' @ post" by (auto simp: prefix_def)
    then show ?thesis using h ws by (intro conjI exI[of _ ws] exI[of _ post]) auto
  qed
qed

lemma isLower_lits: "isLower ''to''" "isLower ''time''" "isLower '':''" "isLower ''prep''"
  "isLower ''aration''" "isLower ''cook''" "isLower ''ing''" "isLower ''total''"
  by (simp_all add: isLower_def toLowerCase_def toLowerChar_def isUpper_def)

lemma timeRange_Some:
  assumes "isLower s" "timeRange s = Some (hi, r)"
  shows "\<exists>a b. s = a @ ''to'' @ b @ hi @ r \<and> a \<noteq> [] \<and> allSpace a \<and> b \<noteq> [] \<and> allSpace b
            \<and> hi \<noteq> [] \<and> allDigits hi"
proof -
  from assms(2) obtain x y z where x: "spaces1 s = Some x" and y: "litCI ''to'' x = Some y"
    and z: "spaces1 y = Some z" and d: "digits1 z = Some (hi, r)"
    by (auto simp: timeRange_def split: Option.bind_splits)
  from spaces1_Some[OF x] obtain a where a: "s = a @ x" "a \<noteq> []" "allSpace a" by blast
  have "isLower x" using assms(1) a by simp
  then have y': "x = ''to'' @ y" using y litCI_lower[OF isLower_lits(1)] by blast
  from spaces1_Some[OF z] obtain b where b: "y = b @ z" "b \<noteq> []" "allSpace b" by blast
  from digits1_Some[OF d] have "z = hi @ r" "hi \<noteq> []" "allDigits hi" by auto
  then show ?thesis using a y' b by (intro exI[of _ a] exI[of _ b]) simp
qed

lemma timeAmount_Some:
  assumes "isLower s" "timeAmount s = Some (g1, g2, u)"
  shows "\<exists>ws2 rng ws3 post. s = ws2 @ g1 @ rng @ ws3 @ u @ post \<and> allSpace ws2
            \<and> g1 \<noteq> [] \<and> allDigits g1
            \<and> (rng = [] \<or>
                (\<exists>a b hi. rng = a @ ''to'' @ b @ hi \<and> a \<noteq> [] \<and> allSpace a
                      \<and> b \<noteq> [] \<and> allSpace b \<and> hi \<noteq> [] \<and> allDigits hi))
            \<and> ws3 \<noteq> [] \<and> allSpace ws3 \<and> (u = ''minutes'' \<or> u = ''hours'')"
proof -
  define ws2 where "ws2 = takeWhile isSpace s"
  define s1 where "s1 = dropWhile isSpace s"
  have s: "s = ws2 @ s1" by (simp add: ws2_def s1_def)
  have w2: "allSpace ws2" by (auto simp: ws2_def allSpace_def dest: set_takeWhileD)
  from assms(2) obtain d r where d: "digits1 s1 = Some (d, r)"
    by (auto simp: timeAmount_def s1_def split: option.splits)
  from digits1_Some[OF d] have dd: "s1 = d @ r" "d \<noteq> []" "allDigits d" by auto
  have lr: "isLower r" using assms(1) s dd by simp
  from assms(2) d have
    "(\<exists>hi r'. timeRange r = Some (hi, r') \<and> timeUnit (Some hi) d r' = Some (g1, g2, u))
      \<or> timeUnit None d r = Some (g1, g2, u)"
    by (auto simp: timeAmount_def s1_def split: option.splits)
  then show ?thesis
  proof
    assume "\<exists>hi r'. timeRange r = Some (hi, r') \<and> timeUnit (Some hi) d r' = Some (g1, g2, u)"
    then obtain hi r' where h: "timeRange r = Some (hi, r')" "timeUnit (Some hi) d r' = Some (g1, g2, u)"
      by blast
    from timeRange_Some[OF lr h(1)] obtain a b where ab: "r = a @ ''to'' @ b @ hi @ r'"
      "a \<noteq> []" "allSpace a" "b \<noteq> []" "allSpace b" "hi \<noteq> []" "allDigits hi" by blast
    have "isLower r'" using lr ab(1) by simp
    from timeUnit_Some[OF this h(2)] obtain ws post where u: "g1 = d" "r' = ws @ u @ post"
      "ws \<noteq> []" "allSpace ws" "u = ''minutes'' \<or> u = ''hours''" by blast
    show ?thesis
      apply (rule exI[of _ ws2], rule exI[of _ "a @ ''to'' @ b @ hi"], rule exI[of _ ws], rule exI[of _ post])
      using s dd ab u w2 by auto
  next
    assume h: "timeUnit None d r = Some (g1, g2, u)"
    from timeUnit_Some[OF lr h] obtain ws post where u: "g1 = d" "r = ws @ u @ post"
      "ws \<noteq> []" "allSpace ws" "u = ''minutes'' \<or> u = ''hours''" by blast
    show ?thesis
      apply (rule exI[of _ ws2], rule exI[of _ "[]"], rule exI[of _ ws], rule exI[of _ post])
      using s dd u w2 by auto
  qed
qed


lemma timeLabel_Some:
  assumes "isLower s" "timeLabel s = Some (g1, g2, u)"
  shows "\<exists>ws1 colon ws2 rng ws3 post.
            s = ws1 @ ''time'' @ colon @ ws2 @ g1 @ rng @ ws3 @ u @ post
            \<and> ws1 \<noteq> [] \<and> allSpace ws1 \<and> (colon = [] \<or> colon = '':'') \<and> allSpace ws2
            \<and> g1 \<noteq> [] \<and> allDigits g1 \<and> rangeOK rng
            \<and> ws3 \<noteq> [] \<and> allSpace ws3 \<and> (u = ''minutes'' \<or> u = ''hours'')"
proof -
  from assms(2) obtain x y where x: "spaces1 s = Some x" and y: "litCI ''time'' x = Some y"
    and o: "optionally (litCI '':'') timeAmount y = Some (g1, g2, u)"
    by (auto simp: timeLabel_def split: Option.bind_splits)
  from spaces1_Some[OF x] obtain ws1 where a: "s = ws1 @ x" "ws1 \<noteq> []" "allSpace ws1" by blast
  have "isLower x" using assms(1) a by simp
  then have y': "x = ''time'' @ y" using y litCI_lower[OF isLower_lits(2)] by blast
  have ly: "isLower y" using \<open>isLower x\<close> y' by simp
  from optionally_Some[OF o] obtain colon z where z: "y = colon @ z" "colon = [] \<or> colon = '':''"
    "timeAmount z = Some (g1, g2, u)"
    using litCI_lower[OF isLower_lits(3) ly] by (metis append_Nil)
  have "isLower z" using ly z(1) by simp
  from timeAmount_Some[OF this z(3)] obtain ws2 rng ws3 post where
    t: "z = ws2 @ g1 @ rng @ ws3 @ u @ post" "allSpace ws2" "g1 \<noteq> []" "allDigits g1"
       "rangeOK rng" "ws3 \<noteq> []" "allSpace ws3" "u = ''minutes'' \<or> u = ''hours''"
    unfolding rangeOK_def by blast
  show ?thesis
    apply (rule exI[of _ ws1], rule exI[of _ colon], rule exI[of _ ws2], rule exI[of _ rng],
           rule exI[of _ ws3], rule exI[of _ post])
    using a y' z t by simp
qed

lemma timeLabel_phrase:
  assumes "isLower s" "timeLabel s = Some m" "first \<in> F"
  shows "\<exists>w post. first @ s = w @ post \<and> timePhrase F w"
proof -
  obtain g1 g2 u where m: "m = (g1, g2, u)" by (cases m) auto
  from timeLabel_Some[OF assms(1) assms(2)[unfolded m]]
  obtain ws1 colon ws2 rng ws3 post where
    t: "s = ws1 @ ''time'' @ colon @ ws2 @ g1 @ rng @ ws3 @ u @ post"
       "ws1 \<noteq> []" "allSpace ws1" "colon = [] \<or> colon = '':''" "allSpace ws2"
       "g1 \<noteq> []" "allDigits g1" "rangeOK rng"
       "ws3 \<noteq> []" "allSpace ws3" "u = ''minutes'' \<or> u = ''hours''" by blast
  have "timePhrase F (first @ ws1 @ ''time'' @ colon @ ws2 @ g1 @ rng @ ws3 @ u)"
    unfolding timePhrase_def
    apply (rule exI[of _ first], rule exI[of _ ws1], rule exI[of _ colon], rule exI[of _ ws2],
           rule exI[of _ g1], rule exI[of _ rng], rule exI[of _ ws3], rule exI[of _ u])
    using t assms(3) unfolding rangeOK_def by simp
  then show ?thesis using t(1) by (intro exI[of _ "first @ ws1 @ ''time'' @ colon @ ws2 @ g1 @ rng @ ws3 @ u"] exI[of _ post]) simp
qed

lemma wordRegex_phrase:
  assumes "isLower s" "isLower word" "isLower ending"
    and "(litCI word s \<bind> optionally (litCI ending) timeLabel) = Some m"
    and "word \<in> F" "word @ ending \<in> F"
  shows "\<exists>w post. s = w @ post \<and> timePhrase F w"
proof -
  from assms(4) obtain a where a: "litCI word s = Some a" "optionally (litCI ending) timeLabel a = Some m"
    by (auto split: Option.bind_splits)
  have sa: "s = word @ a" using a(1) litCI_lower[OF assms(2,1)] by blast
  then have la: "isLower a" using assms(1) by simp
  from optionally_Some[OF a(2)] show ?thesis
  proof
    assume "\<exists>r. litCI ending a = Some r \<and> timeLabel r = Some m"
    then obtain r where r: "a = ending @ r" "timeLabel r = Some m"
      using litCI_lower[OF assms(3) la] by blast
    have "isLower r" using la r by simp
    from timeLabel_phrase[OF this r(2) assms(6)] show ?thesis using sa r by simp
  next
    assume "timeLabel a = Some m"
    from timeLabel_phrase[OF la this assms(5)] show ?thesis using sa by simp
  qed
qed

lemma prepRegex_phrase:
  assumes "isLower s" "prepRegex s = Some m"
  shows "\<exists>w post. s = w @ post \<and> timePhrase (firstWords ''prep'') w"
proof -
  have "(litCI ''prep'' s \<bind> optionally (litCI ''aration'') timeLabel) = Some m"
    using assms(2) by (simp add: prepRegex_def)
  then show ?thesis
    by (rule wordRegex_phrase[OF assms(1) isLower_lits(4) isLower_lits(5)])
       (simp_all add: firstWords_def)
qed

lemma cookRegex_phrase:
  assumes "isLower s" "cookRegex s = Some m"
  shows "\<exists>w post. s = w @ post \<and> timePhrase (firstWords ''cook'') w"
proof -
  have "(litCI ''cook'' s \<bind> optionally (litCI ''ing'') timeLabel) = Some m"
    using assms(2) by (simp add: cookRegex_def)
  then show ?thesis
    by (rule wordRegex_phrase[OF assms(1) isLower_lits(6) isLower_lits(7)])
       (simp_all add: firstWords_def)
qed

lemma totalRegex_phrase:
  assumes "isLower s" "totalRegex s = Some m"
  shows "\<exists>w post. s = w @ post \<and> timePhrase (firstWords ''total'') w"
proof -
  from assms(2) obtain a where a: "litCI ''total'' s = Some a" "timeLabel a = Some m"
    by (auto simp: totalRegex_def split: Option.bind_splits)
  have sa: "s = ''total'' @ a" using a(1) litCI_lower[OF isLower_lits(8) assms(1)] by blast
  then have la: "isLower a" using assms(1) by simp
  from timeLabel_phrase[OF la a(2), of "''total''" "firstWords ''total''"] show ?thesis
    using sa by (simp add: firstWords_def)
qed

lemma firstMatch_phrase:
  assumes "\<And>s m. isLower s \<Longrightarrow> rx s = Some m \<Longrightarrow> \<exists>w post. s = w @ post \<and> timePhrase F w"
    and "firstMatch rx (toLowerCase html) = Some m"
  shows "\<exists>pre w post. toLowerCase html = pre @ w @ post \<and> timePhrase F w"
proof -
  from firstMatch_Some[OF assms(2)] obtain pre rest where
    pr: "toLowerCase html = pre @ rest" "rx rest = Some m" by blast
  have "isLower rest" using isLower_toLowerCase[of html] unfolding pr(1) by simp
  from assms(1)[OF this pr(2)] obtain w post where "rest = w @ post" "timePhrase F w" by blast
  then show ?thesis using pr(1) by blast
qed

lemma extractTime_default:
  assumes "\<not> (\<exists>pre w post. toLowerCase html = pre @ w @ post \<and> timePhrase (firstWords timeType) w)"
  shows "extractTime html timeType = defaultTime timeType"
proof -
  have "firstMatch prepRegex (toLowerCase html) = None" if "timeType = ''prep''"
    using firstMatch_phrase[of prepRegex "firstWords ''prep''" html] prepRegex_phrase assms that
    by (cases "firstMatch prepRegex (toLowerCase html)") auto
  moreover have "firstMatch cookRegex (toLowerCase html) = None" if "timeType = ''cook''"
    using firstMatch_phrase[of cookRegex "firstWords ''cook''" html] cookRegex_phrase assms that
    by (cases "firstMatch cookRegex (toLowerCase html)") auto
  moreover have "firstMatch totalRegex (toLowerCase html) = None" if "timeType = ''total''"
    using firstMatch_phrase[of totalRegex "firstWords ''total''" html] totalRegex_phrase assms that
    by (cases "firstMatch totalRegex (toLowerCase html)") auto
  ultimately show ?thesis
    by (simp add: extractTime_def defaultTime_def Let_def)
qed


lemma space_not_upper: "isSpace c \<Longrightarrow> toLowerChar c = c"
  by (auto simp: isSpace_def toLowerChar_def isUpper_def)
lemma space_not_digit: "isSpace c \<Longrightarrow> \<not> isDigit c"
  by (auto simp: isSpace_def isDigit_def)
lemma digit_not_upper: "isDigit c \<Longrightarrow> toLowerChar c = c"
  by (auto simp: isDigit_def toLowerChar_def isUpper_def Let_def)

lemma ciEq_refl [simp]: "ciEq c c" by (simp add: ciEq_def)
lemma ciPrefix_append [simp]: "ciPrefix p (p @ r)" by (induction p) auto
lemma litCI_append [simp]: "litCI p (p @ r) = Some r" by (simp add: litCI_def)

lemma takeWhile_run:
  "\<forall>c\<in>set d. P c \<Longrightarrow> r = [] \<or> \<not> P (hd r) \<Longrightarrow> takeWhile P (d @ r) = d"
  by (cases r) auto

lemma dropWhile_run_gen:
  "\<forall>c\<in>set d. P c \<Longrightarrow> r = [] \<or> \<not> P (hd r) \<Longrightarrow> dropWhile P (d @ r) = r"
  by (cases r) auto

lemma spaces1_run:
  "ws \<noteq> [] \<Longrightarrow> allSpace ws \<Longrightarrow> r = [] \<or> \<not> isSpace (hd r) \<Longrightarrow> spaces1 (ws @ r) = Some r"
  using dropWhile_run_gen[of ws isSpace r]
  by (cases ws) (auto simp: spaces1_def allSpace_def)

lemma dropWhile_run:
  "allSpace ws \<Longrightarrow> r = [] \<or> \<not> isSpace (hd r) \<Longrightarrow> dropWhile isSpace (ws @ r) = r"
  using dropWhile_run_gen[of ws isSpace r] by (simp add: allSpace_def)

lemma digits1_run:
  "d \<noteq> [] \<Longrightarrow> allDigits d \<Longrightarrow> r = [] \<or> \<not> isDigit (hd r) \<Longrightarrow> digits1 (d @ r) = Some (d, r)"
  using dropWhile_run_gen[of d isDigit r] takeWhile_run[of d isDigit r]
  by (simp add: digits1_def allDigits_def Let_def)

lemma hd_space: "ws \<noteq> [] \<Longrightarrow> allSpace ws \<Longrightarrow> isSpace (hd (ws @ r))"
  by (cases ws) (auto simp: allSpace_def)
lemma hd_digit: "d \<noteq> [] \<Longrightarrow> allDigits d \<Longrightarrow> isDigit (hd (d @ r))"
  by (cases d) (auto simp: allDigits_def)

lemma litCI_fail: "p \<noteq> [] \<Longrightarrow> s = [] \<or> \<not> ciEq (hd p) (hd s) \<Longrightarrow> litCI p s = None"
  by (cases p; cases s) (auto simp: litCI_def)

lemma timeUnit_run:
  assumes "ws \<noteq> []" "allSpace ws" "u = ''minutes'' \<or> u = ''hours''"
  shows "timeUnit g2 g1 (ws @ u @ post) = Some (g1, g2, u)"
proof -
  have "\<not> isSpace (hd (u @ post))" using assms(3) by (auto simp: isSpace_def)
  then have "spaces1 (ws @ u @ post) = Some (u @ post)" using spaces1_run[OF assms(1,2)] by simp
  moreover have "\<not> ciPrefix ''minutes'' (''hours'' @ post)" by (simp add: ciEq_def toLowerChar_def isUpper_def)
  ultimately show ?thesis using assms(3) ciPrefix_append[of u post]
    by (auto simp: timeUnit_def simp del: ciPrefix_append)
qed

lemma timeRange_run:
  assumes "a \<noteq> []" "allSpace a" "b \<noteq> []" "allSpace b" "hi \<noteq> []" "allDigits hi"
    "r = [] \<or> \<not> isDigit (hd r)"
  shows "timeRange (a @ ''to'' @ b @ hi @ r) = Some (hi, r)"
proof -
  have 1: "spaces1 (a @ ''to'' @ b @ hi @ r) = Some (''to'' @ b @ hi @ r)"
    using spaces1_run[OF assms(1,2), of "''to'' @ b @ hi @ r"] by (simp add: isSpace_def)
  have "\<not> isSpace (hd (hi @ r))" using hd_digit[OF assms(5,6), of r] space_not_digit by blast
  then have 2: "spaces1 (b @ hi @ r) = Some (hi @ r)" using spaces1_run[OF assms(3,4), of "hi @ r"] by simp
  have 3: "digits1 (hi @ r) = Some (hi, r)" using digits1_run[OF assms(5,6,7)] .
  show ?thesis using 1 2 3 litCI_append[of "''to''" "b @ hi @ r"] by (simp add: timeRange_def del: litCI_append)
qed

lemma timeAmount_run:
  assumes "allSpace ws2" "lo \<noteq> []" "allDigits lo"
    "a \<noteq> []" "allSpace a" "b \<noteq> []" "allSpace b" "hi \<noteq> []" "allDigits hi"
    "ws3 \<noteq> []" "allSpace ws3" "u = ''minutes'' \<or> u = ''hours''"
  shows "timeAmount (ws2 @ lo @ a @ ''to'' @ b @ hi @ ws3 @ u @ post) = Some (lo, Some hi, u)"
proof -
  let ?r = "a @ ''to'' @ b @ hi @ ws3 @ u @ post"
  have "\<not> isSpace (hd (lo @ ?r))" using hd_digit[OF assms(2,3), of ?r] space_not_digit by blast
  then have 1: "dropWhile isSpace (ws2 @ lo @ ?r) = lo @ ?r" using dropWhile_run[OF assms(1)] by blast
  have "\<not> isDigit (hd ?r)" using hd_space[OF assms(4,5)] space_not_digit by blast
  then have 2: "digits1 (lo @ ?r) = Some (lo, ?r)" using digits1_run[OF assms(2,3)] by blast
  have "\<not> isDigit (hd (ws3 @ u @ post))" using hd_space[OF assms(10,11)] space_not_digit by blast
  then have 3: "timeRange ?r = Some (hi, ws3 @ u @ post)"
    using timeRange_run[OF assms(4-9), of "ws3 @ u @ post"] by simp
  have 4: "timeUnit (Some hi) lo (ws3 @ u @ post) = Some (lo, Some hi, u)"
    using timeUnit_run[OF assms(10-12)] .
  show ?thesis unfolding timeAmount_def 1 2 using 3 4 by simp
qed


lemma ciEq_plain: "toLowerChar c = c \<Longrightarrow> toLowerChar d = d \<Longrightarrow> ciEq c d \<longleftrightarrow> c = d"
  by (simp add: ciEq_def)

lemma wordRegex_run:
  assumes "timeLabel (ws1 @ rest) = Some m" "ws1 \<noteq> []" "allSpace ws1"
    and e: "ending \<noteq> []" "\<not> isSpace (hd ending)" "toLowerChar (hd ending) = hd ending"
  shows "(litCI word (word @ ws1 @ rest) \<bind> optionally (litCI ending) timeLabel) = Some m"
    and "(litCI word (word @ ending @ ws1 @ rest) \<bind> optionally (litCI ending) timeLabel) = Some m"
proof -
  have "isSpace (hd (ws1 @ rest))" using hd_space[OF assms(2,3)] .
  then have "\<not> ciEq (hd ending) (hd (ws1 @ rest))"
    using e space_not_upper[of "hd (ws1 @ rest)"] by (auto simp: ciEq_plain)
  then have "litCI ending (ws1 @ rest) = None" using e(1) by (intro litCI_fail) simp_all
  then show "(litCI word (word @ ws1 @ rest) \<bind> optionally (litCI ending) timeLabel) = Some m"
    using assms(1) by (simp add: optionally_def)
  have "litCI ending (ending @ ws1 @ rest) = Some (ws1 @ rest)" by (rule litCI_append)
  then show "(litCI word (word @ ending @ ws1 @ rest) \<bind> optionally (litCI ending) timeLabel) = Some m"
    using assms(1) by (simp add: optionally_def)
qed


section \<open>Failures of the chat service\<close>

lemma failFast_chatCreate: "failFast openai calls (chatCreate openai request calls)"
  by (auto simp: failFast_def chatCreate_def nth_append less_Suc_eq split: chatResponse.splits)

lemma floorTimes_examples:
  "floorFifth 800 = 160" "floorThreeFifths 800 = 480"
  "floorTimes 3602879701896397 54 7000000000000004 = 1400000000000001"
  by code_simp+

lemma failFast_none: "failFast openai calls (r, calls)"
  by (auto simp: failFast_def)

lemma failFast_map:
  assumes "failFast openai calls0 (r, calls1)" "\<And>e. r = Inl e \<Longrightarrow> r' = Inl e"
  shows "failFast openai calls0 (r', calls1)"
  using assms by (auto simp: failFast_def)

lemma failFast_then:
  fixes x :: 'b and out :: "(js_error + 'a) \<times> chatRequest list"
  assumes 1: "failFast openai calls0 (Inr x :: js_error + 'b, calls1)" and 2: "failFast openai calls1 out"
  shows "failFast openai calls0 out"
proof -
  have p: "prefix calls0 calls1" "prefix calls1 (snd out)" using 1 2 by (auto simp: failFast_def)
  then have p02: "prefix calls0 (snd out)" by auto
  have "fst out = Inl e \<and> Suc i = length (snd out)"
    if h: "length calls0 \<le> i" "i < length (snd out)" "failure (openai i (snd out ! i)) = Some e" for i e
  proof (cases "i < length calls1")
    case True
    then have "snd out ! i = calls1 ! i" using p(2) by (auto simp: prefix_def nth_append)
    then have "(Inr x :: js_error + 'b) = Inl e" using 1 h True by (auto simp: failFast_def)
    then show ?thesis by simp
  next
    case False
    then have "length calls1 \<le> i" by simp
    then show ?thesis using 2 h unfolding failFast_def by blast
  qed
  then show ?thesis using p02 by (auto simp: failFast_def)
qed

lemma failFast_step:
  fixes st :: "(js_error + 'b) \<times> chatRequest list"
  assumes "failFast openai calls st" "\<And>x c1. failFast openai c1 (k x c1)"
  shows "failFast openai calls (case st of (Inl e, c1) \<Rightarrow> (Inl e, c1) | (Inr x, c1) \<Rightarrow> k x c1)"
proof (cases st)
  case (Pair r c1)
  show ?thesis
  proof (cases r)
    case (Inl e)
    then show ?thesis using assms(1) Pair by (auto intro: failFast_map)
  next
    case (Inr x)
    then show ?thesis using failFast_then[of openai calls x c1 "k x c1"] assms Pair by simp
  qed
qed

lemma failFast_pure:
  assumes "\<And>x. failFast openai c1 (k x)"
  shows "failFast openai c1 (case r of Inl e \<Rightarrow> (Inl e, c1) | Inr x \<Rightarrow> k x)"
  using assms by (cases r) (auto simp: failFast_none)

lemma failFast_part:
  "failFast openai calls (generateArticlePart openai jp cfg kw wc tpl sys ps fi calls)"
  unfolding generateArticlePart_def Let_def
  by (intro failFast_step failFast_chatCreate failFast_none)

lemma failFast_title:
  "failFast openai calls (generateTitle openai jp cfg kw avoid calls)"
  unfolding generateTitle_def Let_def
  by (intro failFast_step failFast_chatCreate failFast_none)

lemma failFast_multi:
  "failFast openai calls (generateMultiPartArticle openai jp cfg kw n ps calls)"
  unfolding generateMultiPartArticle_def Let_def
  by (intro failFast_step failFast_part failFast_pure failFast_title failFast_none)

lemma failFast_generate:
  "failFast openai calls (generateArticleContent openai jp cfg kw n ps calls)"
proof (cases ps)
  case None
  then show ?thesis unfolding generateArticleContent_def Let_def
    by (simp only: option.case) (intro failFast_step failFast_chatCreate failFast_pure failFast_title failFast_none)
next
  case (Some settings)
  show ?thesis
  proof (cases "useMultiPartGeneration settings")
    case True
    then show ?thesis using Some failFast_multi by (simp add: generateArticleContent_def)
  next
    case False
    then show ?thesis using Some unfolding generateArticleContent_def Let_def
      by (simp only: option.case if_False) (intro failFast_step failFast_chatCreate failFast_pure failFast_title failFast_none)
  qed
qed

subsection \<open>The leftmost time phrase\<close>

lemma firstMatch_never: "firstMatch (\<lambda>s. None) s = None"
  by (induction s) simp_all

lemma extractTime_timeRegex:
  "extractTime content timeType =
     (case firstMatch (timeRegex timeType) (toLowerCase content) of
        Some (time, upper, unit) \<Rightarrow> time @ '' '' @ toLowerCase unit
      | None \<Rightarrow> defaultTime timeType)"
  by (cases "firstMatch (timeRegex timeType) (toLowerCase content)")
     (auto simp: extractTime_def timeRegex_def defaultTime_def Let_def firstMatch_never
           split: if_splits)

lemma timeRegex_phrase:
  assumes "isLower s" "timeRegex timeType s = Some m"
  shows "\<exists>w post. s = w @ post \<and> timePhrase (firstWords timeType) w"
proof -
  consider (prep) "timeType = ''prep''" "prepRegex s = Some m"
    | (cook) "timeType = ''cook''" "cookRegex s = Some m"
    | (total) "timeType = ''total''" "totalRegex s = Some m"
    using assms(2) by (simp add: timeRegex_def split: if_splits)
  then show ?thesis
  proof cases
    case prep then show ?thesis using prepRegex_phrase[OF assms(1)] by simp
  next
    case cook then show ?thesis using cookRegex_phrase[OF assms(1)] by simp
  next
    case total then show ?thesis using totalRegex_phrase[OF assms(1)] by simp
  qed
qed

lemma timeAmount_plain_run:
  assumes "allSpace ws2" "lo \<noteq> []" "allDigits lo"
    "ws3 \<noteq> []" "allSpace ws3" "u = ''minutes'' \<or> u = ''hours''"
  shows "timeAmount (ws2 @ lo @ ws3 @ u @ post) = Some (lo, None, u)"
proof -
  let ?r = "ws3 @ u @ post"
  have "\<not> isSpace (hd (lo @ ?r))" using hd_digit[OF assms(2,3), of ?r] space_not_digit by blast
  then have 1: "dropWhile isSpace (ws2 @ lo @ ?r) = lo @ ?r" using dropWhile_run[OF assms(1)] by blast
  have "\<not> isDigit (hd ?r)" using hd_space[OF assms(4,5)] space_not_digit by blast
  then have 2: "digits1 (lo @ ?r) = Some (lo, ?r)" using digits1_run[OF assms(2,3)] by blast
  have "\<not> isSpace (hd (u @ post))" using assms(6) by (auto simp: isSpace_def)
  then have 3: "spaces1 ?r = Some (u @ post)" using spaces1_run[OF assms(4,5)] by simp
  have "litCI ''to'' (u @ post) = None"
    using assms(6) by (auto simp: litCI_def ciEq_def toLowerChar_def isUpper_def)
  then have 4: "timeRange ?r = None" using 3 by (simp add: timeRange_def)
  have 5: "timeUnit None lo ?r = Some (lo, None, u)" using timeUnit_run[OF assms(4-6)] .
  show ?thesis unfolding timeAmount_def 1 2 using 4 5 by simp
qed

lemma timeAmount_any_run:
  assumes "allSpace ws2" "lo \<noteq> []" "allDigits lo" "rangeOK rng"
    "ws3 \<noteq> []" "allSpace ws3" "u = ''minutes'' \<or> u = ''hours''"
  shows "\<exists>g2. timeAmount (ws2 @ lo @ rng @ ws3 @ u @ post) = Some (lo, g2, u)"
proof (cases "rng = []")
  case True
  then show ?thesis using timeAmount_plain_run[OF assms(1-3) assms(5-7), of post] by simp
next
  case False
  then obtain a b hi where r: "rng = a @ ''to'' @ b @ hi" "a \<noteq> []" "allSpace a"
      "b \<noteq> []" "allSpace b" "hi \<noteq> []" "allDigits hi"
    using assms(4) unfolding rangeOK_def by (elim disjE exE conjE) simp_all
  have "timeAmount (ws2 @ lo @ a @ ''to'' @ b @ hi @ ws3 @ u @ post) = Some (lo, Some hi, u)"
    using timeAmount_run[OF assms(1-3) r(2-7) assms(5-7)] .
  then show ?thesis unfolding r(1) by simp
qed

lemma timeLabel_any_run:
  assumes "ws1 \<noteq> []" "allSpace ws1" "colon = [] \<or> colon = '':''"
    "allSpace ws2" "lo \<noteq> []" "allDigits lo" "timeAmount (ws2 @ lo @ r) = Some m"
  shows "timeLabel (ws1 @ ''time'' @ colon @ ws2 @ lo @ r) = Some m"
proof -
  let ?amt = "ws2 @ lo @ r"
  have 1: "spaces1 (ws1 @ ''time'' @ colon @ ?amt) = Some (''time'' @ colon @ ?amt)"
    using spaces1_run[OF assms(1,2), of "''time'' @ colon @ ?amt"] by (simp add: isSpace_def)
  have 2: "litCI ''time'' (''time'' @ colon @ ?amt) = Some (colon @ ?amt)" by (rule litCI_append)
  have 3: "optionally (litCI '':'') timeAmount (colon @ ?amt) = Some m"
  proof (cases "colon = []")
    case True
    have h: "isSpace (hd ?amt) \<or> isDigit (hd ?amt)"
      using hd_space[of ws2 "lo @ r"] assms(4) hd_digit[OF assms(5,6), of r]
      by (cases ws2) auto
    have "toLowerChar (hd ?amt) = hd ?amt" using h space_not_upper digit_not_upper by blast
    moreover have "hd ?amt \<noteq> CHR '':''" using h by (auto simp: isSpace_def isDigit_def)
    moreover have "toLowerChar CHR '':'' = CHR '':''" by (simp add: toLowerChar_def isUpper_def)
    ultimately have "\<not> ciEq (hd '':'') (hd ?amt)" by (simp add: ciEq_plain)
    then have "litCI '':'' ?amt = None" by (intro litCI_fail) simp_all
    then show ?thesis using True assms(7) by (simp add: optionally_def)
  next
    case False
    then have c: "colon = '':''" using assms(3) by simp
    have "litCI '':'' ('':'' @ ?amt) = Some ?amt" by (rule litCI_append)
    then show ?thesis using assms(7) unfolding c optionally_def by simp
  qed
  show ?thesis unfolding timeLabel_def 1 using 2 3 by simp
qed

lemma timeRegex_run:
  assumes fw: "first \<in> firstWords timeType"
    and tl: "timeLabel (ws1 @ rest) = Some m" and ws: "ws1 \<noteq> []" "allSpace ws1"
  shows "timeRegex timeType (first @ ws1 @ rest) = Some m"
proof -
  have e1: "''aration'' \<noteq> []" "\<not> isSpace (hd ''aration'')" "toLowerChar (hd ''aration'') = hd ''aration''"
    by (simp_all add: isSpace_def toLowerChar_def isUpper_def)
  have e2: "''ing'' \<noteq> []" "\<not> isSpace (hd ''ing'')" "toLowerChar (hd ''ing'') = hd ''ing''"
    by (simp_all add: isSpace_def toLowerChar_def isUpper_def)
  consider (prep) "timeType = ''prep''" "first = ''prep'' \<or> first = ''prep'' @ ''aration''"
    | (cook) "timeType = ''cook''" "first = ''cook'' \<or> first = ''cook'' @ ''ing''"
    | (total) "timeType = ''total''" "first = ''total''"
    using fw by (auto simp: firstWords_def split: if_splits)
  then show ?thesis
  proof cases
    case prep
    have "prepRegex (first @ ws1 @ rest) = Some m"
      using prep(2) wordRegex_run[OF tl ws e1, of "''prep''"]
      unfolding prepRegex_def by auto
    then show ?thesis using prep(1) by (simp add: timeRegex_def)
  next
    case cook
    have "cookRegex (first @ ws1 @ rest) = Some m"
      using cook(2) wordRegex_run[OF tl ws e2, of "''cook''"]
      unfolding cookRegex_def by auto
    then show ?thesis using cook(1) by (simp add: timeRegex_def)
  next
    case total
    have "litCI ''total'' (''total'' @ ws1 @ rest) = Some (ws1 @ rest)" by (rule litCI_append)
    then have "totalRegex (first @ ws1 @ rest) = Some m"
      using total(2) tl unfolding totalRegex_def by simp
    then show ?thesis using total(1) by (simp add: timeRegex_def)
  qed
qed

lemma timeReading_match:
  assumes "timeReading (firstWords timeType) w lo u"
  shows "\<exists>g2. timeRegex timeType (w @ post) = Some (lo, g2, u)"
proof -
  from assms obtain first ws1 colon ws2 rng ws3 where
    w: "w = first @ ws1 @ ''time'' @ colon @ ws2 @ lo @ rng @ ws3 @ u"
    and fw: "first \<in> firstWords timeType"
    and sh: "ws1 \<noteq> []" "allSpace ws1" "colon = [] \<or> colon = '':''" "allSpace ws2"
      "lo \<noteq> []" "allDigits lo"
    and rest: "rangeOK rng" "ws3 \<noteq> []" "allSpace ws3" "u = ''minutes'' \<or> u = ''hours''"
    unfolding timeReading_def by (elim exE conjE)
  from timeAmount_any_run[OF sh(4-6) rest, of post] obtain g2 where
    a: "timeAmount (ws2 @ lo @ rng @ ws3 @ u @ post) = Some (lo, g2, u)" by (elim exE)
  have "timeLabel (ws1 @ ''time'' @ colon @ ws2 @ lo @ rng @ ws3 @ u @ post) = Some (lo, g2, u)"
    using timeLabel_any_run[OF sh a] .
  from timeRegex_run[OF fw this sh(1,2)]
  have "timeRegex timeType (w @ post) = Some (lo, g2, u)" unfolding w by simp
  then show ?thesis by (rule exI)
qed

lemma timePhrase_reading: "timePhrase F w \<longleftrightarrow> (\<exists>lo u. timeReading F w lo u)"
  unfolding timePhrase_def timeReading_def rangeOK_def by blast

lemma timePhrase_match:
  assumes "timePhrase (firstWords timeType) w"
  shows "timeRegex timeType (w @ post) \<noteq> None"
proof -
  from assms obtain lo u where "timeReading (firstWords timeType) w lo u"
    unfolding timePhrase_reading by (elim exE)
  from timeReading_match[OF this, of post] show ?thesis by (elim exE) simp
qed

lemma firstMatch_leftmost:
  assumes "\<And>p1 p2. pre = p1 @ p2 \<Longrightarrow> p2 \<noteq> [] \<Longrightarrow> m (p2 @ rest) = None" "m rest = Some r"
  shows "firstMatch m (pre @ rest) = Some r"
  using assms
proof (induction pre)
  case Nil
  then show ?case by (cases rest) simp_all
next
  case (Cons c cs)
  have "m ((c # cs) @ rest) = None" using Cons.prems(1)[of "[]" "c # cs"] by simp
  moreover have "firstMatch m (cs @ rest) = Some r"
  proof (rule Cons.IH)
    fix p1 p2 assume "cs = p1 @ p2" "p2 \<noteq> []"
    then show "m (p2 @ rest) = None" using Cons.prems(1)[of "c # p1" p2] by simp
  qed (rule Cons.prems(2))
  ultimately show ?case by simp
qed

lemma noPhraseBefore_none:
  assumes n: "noPhraseBefore (firstWords timeType) s (length pre)" and l: "isLower s"
    and s: "s = pre @ rest" and p: "pre = p1 @ p2" "p2 \<noteq> []"
  shows "timeRegex timeType (p2 @ rest) = None"
proof (rule ccontr)
  assume "timeRegex timeType (p2 @ rest) \<noteq> None"
  then obtain m where m: "timeRegex timeType (p2 @ rest) = Some m" by (cases "timeRegex timeType (p2 @ rest)") simp_all
  have "isLower (p2 @ rest)" using l unfolding s p(1) by simp
  from timeRegex_phrase[OF this m] obtain w post where
    w: "p2 @ rest = w @ post" "timePhrase (firstWords timeType) w" by (elim exE conjE)
  have "s = p1 @ w @ post" unfolding s p(1) using w(1) by simp
  then have "length pre \<le> length p1" using n w(2) unfolding noPhraseBefore_def by blast
  then show False using p by simp
qed

lemma extractTime_leftmost:
  assumes s: "toLowerCase html = pre @ w @ post"
    and r: "timeReading (firstWords timeType) w lo u"
    and n: "noPhraseBefore (firstWords timeType) (toLowerCase html) (length pre)"
  shows "extractTime html timeType = lo @ '' '' @ u"
proof -
  from timeReading_match[OF r, of post] obtain g2 where
    m: "timeRegex timeType (w @ post) = Some (lo, g2, u)" by (elim exE)
  have "firstMatch (timeRegex timeType) (pre @ w @ post) = Some (lo, g2, u)"
  proof (rule firstMatch_leftmost[where m = "timeRegex timeType" and rest = "w @ post"])
    fix p1 p2 assume "pre = p1 @ p2" "p2 \<noteq> []"
    then show "timeRegex timeType (p2 @ w @ post) = None"
      using noPhraseBefore_none[OF n _ s] by simp
  qed (rule m)
  then have f: "firstMatch (timeRegex timeType) (toLowerCase html) = Some (lo, g2, u)"
    unfolding s .
  have "u = ''minutes'' \<or> u = ''hours''" using r unfolding timeReading_def by (elim exE conjE)
  then have "toLowerCase u = u" by (auto simp: toLowerCase_def toLowerChar_def isUpper_def)
  then show ?thesis unfolding extractTime_timeRegex f by simp
qed

lemma noPhraseBefore_check:
  assumes "\<And>i. i < n \<Longrightarrow> timeRegex timeType (drop i s) = None"
  shows "noPhraseBefore (firstWords timeType) s n"
  unfolding noPhraseBefore_def
proof (intro allI impI)
  fix pre w post assume a: "s = pre @ w @ post \<and> timePhrase (firstWords timeType) w"
  then have "timeRegex timeType (w @ post) \<noteq> None" using timePhrase_match by simp
  moreover have "drop (length pre) s = w @ post" using a by simp
  ultimately have "timeRegex timeType (drop (length pre) s) \<noteq> None" by simp
  then show "n \<le> length pre" using assms[of "length pre"] by (cases "length pre < n") simp_all
qed


section \<open>The claims\<close>

subsection \<open>Prompt variables\<close>

lemma sublist_joinWith: "h \<in> set hs \<Longrightarrow> sublist h (joinWith sep hs)"
proof (induction hs)
  case Nil
  then show ?case by simp
next
  case (Cons g gs)
  show ?case
  proof (cases "h = g")
    case True
    then show ?thesis by simp
  next
    case False
    then have hg: "h \<in> set gs" using Cons.prems by simp
    then have ne: "gs \<noteq> []" by auto
    have "sublist h (joinWith sep gs)" using Cons.IH hg by simp
    then have "sublist h ((g @ sep) @ joinWith sep gs)" by (simp add: sublist_append)
    then show ?thesis using joinWith_Cons_ne[OF ne, of sep g] by simp
  qed
qed

lemma applyPromptVariables_two:
  "applyPromptVariables template [(''keyword'', kw), (''minWords'', mw)]
     = replaceToken ''minWords'' mw [] (replaceToken ''keyword'' kw [] template)"
  by (simp add: applyPromptVariables_def)

text \<open>
  Claim C4, as amended. For values without a dollar sign, \<open>applyPromptVariables\<close> cuts the
  template at every occurrence of the literal token \<open>{keyword}\<close> (the pieces \<open>gs\<close> hold no
  further occurrence, so all occurrences are taken, not just the first), puts the keyword
  between the pieces unchanged, then does the same with \<open>{minWords}\<close> on the result; the
  pieces themselves are copied as they are, whatever characters they hold. When in addition
  the values have no brace, the keyword is no piece of the word \<open>keyword\<close> and the word count
  is no piece of \<open>keyword\<close> or \<open>minWords\<close>, neither token is left in the output.
\<close>

theorem applyPromptVariables_replaces_all:
  assumes "CHR ''$'' \<notin> set kw" and "CHR ''$'' \<notin> set mw"
  shows "\<exists>gs hs. gs \<noteq> [] \<and> hs \<noteq> []
           \<and> template = joinWith ''{keyword}'' gs \<and> (\<forall>g\<in>set gs. \<not> js_includes g ''{keyword}'')
           \<and> joinWith kw gs = joinWith ''{minWords}'' hs
           \<and> (\<forall>h\<in>set hs. \<not> js_includes h ''{minWords}'')
           \<and> applyPromptVariables template [(''keyword'', kw), (''minWords'', mw)] = joinWith mw hs
           \<and> (CHR ''{'' \<notin> set kw \<and> CHR ''}'' \<notin> set kw \<and> \<not> js_includes ''keyword'' kw
                \<and> CHR ''{'' \<notin> set mw \<and> CHR ''}'' \<notin> set mw \<and> \<not> js_includes ''keyword'' mw
                \<and> \<not> js_includes ''minWords'' mw
              \<longrightarrow> \<not> js_includes (joinWith mw hs) ''{keyword}''
                  \<and> \<not> js_includes (joinWith mw hs) ''{minWords}'')"
proof -
  from replaceToken_decomp[OF assms(1), of template "''keyword''" "[]"]
  obtain gs where gs: "gs \<noteq> []" "template = joinWith ''{keyword}'' gs"
    "\<forall>g\<in>set gs. \<not> js_includes g ''{keyword}''"
    "replaceToken ''keyword'' kw [] template = joinWith kw gs" by auto
  from replaceToken_decomp[OF assms(2), of "joinWith kw gs" "''minWords''" "[]"]
  obtain hs where hs: "hs \<noteq> []" "joinWith kw gs = joinWith ''{minWords}'' hs"
    "\<forall>h\<in>set hs. \<not> js_includes h ''{minWords}''"
    "replaceToken ''minWords'' mw [] (joinWith kw gs) = joinWith mw hs" by auto
  have res: "applyPromptVariables template [(''keyword'', kw), (''minWords'', mw)] = joinWith mw hs"
    using gs(4) hs(4) by (simp add: applyPromptVariables_two)
  have clean: "\<not> js_includes (joinWith mw hs) ''{keyword}'' \<and> \<not> js_includes (joinWith mw hs) ''{minWords}''"
    if c: "CHR ''{'' \<notin> set kw" "CHR ''}'' \<notin> set kw" "\<not> js_includes ''keyword'' kw"
      "CHR ''{'' \<notin> set mw" "CHR ''}'' \<notin> set mw" "\<not> js_includes ''keyword'' mw"
      "\<not> js_includes ''minWords'' mw"
  proof -
    have p1: "\<not> sublist (''{'' @ ''keyword'' @ ''}'') (joinWith kw gs)"
      using c(1-3) gs(3) by (intro no_token_join) (simp_all add: js_includes_def)
    have "\<not> sublist (''{'' @ ''keyword'' @ ''}'') h" if "h \<in> set hs" for h
    proof
      assume "sublist (''{'' @ ''keyword'' @ ''}'') h"
      moreover have "sublist h (joinWith kw gs)" using sublist_joinWith[OF that] hs(2) by simp
      ultimately show False using p1 sublist_order.order_trans by blast
    qed
    then have "\<not> sublist (''{'' @ ''keyword'' @ ''}'') (joinWith mw hs)"
      using c(4-6) by (intro no_token_join) (simp_all add: js_includes_def)
    moreover have "\<not> sublist (''{'' @ ''minWords'' @ ''}'') (joinWith mw hs)"
      using c(4,5,7) hs(3) by (intro no_token_join) (simp_all add: js_includes_def)
    ultimately show ?thesis by (simp add: js_includes_def)
  qed
  show ?thesis
    using gs(1-3) hs(1-3) res clean by (intro exI[of _ gs] exI[of _ hs]) blast
qed

theorem applyPromptVariables_replaces_all_witness:
  "CHR ''$'' \<notin> set ''banana bread'' \<and> CHR ''$'' \<notin> set ''800''
   \<and> (\<exists>gs hs. gs \<noteq> [] \<and> hs \<noteq> []
         \<and> ''Write about {keyword} in {minWords} words; {keyword}!'' = joinWith ''{keyword}'' gs
         \<and> applyPromptVariables ''Write about {keyword} in {minWords} words; {keyword}!''
              [(''keyword'', ''banana bread''), (''minWords'', ''800'')] = joinWith ''800'' hs
         \<and> \<not> js_includes (joinWith ''800'' hs) ''{keyword}''
         \<and> \<not> js_includes (joinWith ''800'' hs) ''{minWords}'')"
proof -
  have d: "CHR ''$'' \<notin> set ''banana bread''" "CHR ''$'' \<notin> set ''800''" by simp_all
  have b: "CHR ''{'' \<notin> set ''banana bread'' \<and> CHR ''}'' \<notin> set ''banana bread''
           \<and> CHR ''{'' \<notin> set ''800'' \<and> CHR ''}'' \<notin> set ''800''" by simp
  have s: "\<not> js_includes ''keyword'' ''banana bread'' \<and> \<not> js_includes ''keyword'' ''800''
           \<and> \<not> js_includes ''minWords'' ''800''" by code_simp
  from applyPromptVariables_replaces_all[OF d, of "''Write about {keyword} in {minWords} words; {keyword}!''"]
  show ?thesis using d b s by blast
qed

text \<open>
  Claim C4 as stated fails: with the keyword \<open>{keyword}\<close> the output of the template
  \<open>{keyword}\<close> still holds the literal token.
\<close>

theorem applyPromptVariables_token_left:
  "js_includes (applyPromptVariables ''{keyword}'' [(''keyword'', ''{keyword}''), (''minWords'', ''800'')])
     ''{keyword}''"
  by code_simp

subsection \<open>Times\<close>

lemma timePhrase_has_time: "timePhrase F w \<Longrightarrow> sublist ''time'' w"
proof -
  assume "timePhrase F w"
  then obtain a b c where "w = a @ b @ ''time'' @ c" unfolding timePhrase_def by blast
  then have "w = (a @ b) @ ''time'' @ c" by simp
  then show ?thesis unfolding sublist_def by blast
qed

text \<open>
  Claim C8, as amended. The pattern of the source is \<open>prep(?:aration)?\s+time\<close>,
  \<open>cook(?:ing)?\s+time\<close> or \<open>total\s+time\<close>, followed by
  \<open>:?\s*(\d+)(?:\s+to\s+(\d+))?\s+(minutes|hours)\<close>, and it is looked for anywhere in the
  lower-cased document: wherever the leftmost piece of that shape stands, the field is its
  first number and its unit; for every document in which no piece has that shape, the field
  is the fixed default of its type: 15, 30 and 45 minutes.
\<close>

theorem extractTime_whole_document:
  "(\<forall>pre w post lo unit.
      toLowerCase html = pre @ w @ post \<and> timeReading (firstWords timeType) w lo unit
      \<and> noPhraseBefore (firstWords timeType) (toLowerCase html) (length pre)
      \<longrightarrow> extractTime html timeType = lo @ '' '' @ unit)
   \<and> ((\<forall>pre w post. toLowerCase html = pre @ w @ post
          \<longrightarrow> \<not> timePhrase (firstWords timeType) w)
        \<longrightarrow> extractTime html timeType = defaultTime timeType)
   \<and> defaultTime ''prep'' = ''15 minutes'' \<and> defaultTime ''cook'' = ''30 minutes''
   \<and> defaultTime ''total'' = ''45 minutes''"
proof (intro conjI allI impI)
  fix pre w post lo unit
  assume "toLowerCase html = pre @ w @ post \<and> timeReading (firstWords timeType) w lo unit
      \<and> noPhraseBefore (firstWords timeType) (toLowerCase html) (length pre)"
  then show "extractTime html timeType = lo @ '' '' @ unit"
    by (elim conjE) (rule extractTime_leftmost[of html pre w post timeType lo unit])
next
  assume "\<forall>pre w post. toLowerCase html = pre @ w @ post
            \<longrightarrow> \<not> timePhrase (firstWords timeType) w"
  then have "\<not> (\<exists>pre w post. toLowerCase html = pre @ w @ post
                  \<and> timePhrase (firstWords timeType) w)" by blast
  then show "extractTime html timeType = defaultTime timeType" by (rule extractTime_default)
qed (simp_all add: defaultTime_def)

theorem extractTime_whole_document_witness:
  "toLowerCase ''<p>Prep Time: 20 minutes</p>'' = ''<p>'' @ ''prep time: 20 minutes'' @ ''</p>''
   \<and> extractTime ''<p>Prep Time: 20 minutes</p>'' ''prep'' = ''20 minutes''
   \<and> extractTime ''<p>Bake for half an hour.</p>'' ''cook'' = ''30 minutes''"
proof -
  let ?doc = "''<p>Prep Time: 20 minutes</p>''"
  let ?plain = "''<p>Bake for half an hour.</p>''"
  have s: "toLowerCase ?doc = ''<p>'' @ ''prep time: 20 minutes'' @ ''</p>''" by code_simp
  have "''prep time: 20 minutes'' = ''prep'' @ '' '' @ ''time'' @ '':'' @ '' '' @ ''20'' @ [] @ '' '' @ ''minutes''
        \<and> ''prep'' \<in> firstWords ''prep'' \<and> '' '' \<noteq> [] \<and> allSpace '' ''
        \<and> ('':'' = [] \<or> '':'' = '':'') \<and> allSpace '' ''
        \<and> ''20'' \<noteq> [] \<and> allDigits ''20'' \<and> rangeOK []
        \<and> '' '' \<noteq> [] \<and> allSpace '' '' \<and> (''minutes'' = ''minutes'' \<or> ''minutes'' = ''hours'')"
    by (simp add: firstWords_def allSpace_def allDigits_def isSpace_def isDigit_def rangeOK_def)
  then have r: "timeReading (firstWords ''prep'') ''prep time: 20 minutes'' ''20'' ''minutes''"
    unfolding timeReading_def
    by (intro exI[of _ "''prep''"] exI[of _ "'' ''"] exI[of _ "'':''"] exI[of _ "[]"])
  have n: "noPhraseBefore (firstWords ''prep'') (toLowerCase ?doc) (length ''<p>'')"
  proof (rule noPhraseBefore_check)
    fix i :: nat assume "i < length ''<p>''"
    then have i: "i = 0 \<or> i = Suc 0 \<or> i = Suc (Suc 0)" by (simp add: less_Suc_eq)
    have "timeRegex ''prep'' (drop 0 (toLowerCase ?doc)) = None" by code_simp
    moreover have "timeRegex ''prep'' (drop (Suc 0) (toLowerCase ?doc)) = None" by code_simp
    moreover have "timeRegex ''prep'' (drop (Suc (Suc 0)) (toLowerCase ?doc)) = None" by code_simp
    ultimately show "timeRegex ''prep'' (drop i (toLowerCase ?doc)) = None" using i by (elim disjE) simp_all
  qed
  have t: "\<not> sublist ''time'' (toLowerCase ?plain)" by code_simp
  have h: "\<forall>pre w post. toLowerCase ?plain = pre @ w @ post
             \<longrightarrow> \<not> timePhrase (firstWords ''cook'') w"
  proof (intro allI impI notI)
    fix pre w post
    assume d: "toLowerCase ?plain = pre @ w @ post" and "timePhrase (firstWords ''cook'') w"
    then have "sublist ''time'' w" by (rule_tac timePhrase_has_time)
    moreover have "sublist w (toLowerCase ?plain)" unfolding d by simp
    ultimately show False using t sublist_order.order_trans by blast
  qed
  have 1: "extractTime ?doc ''prep'' = ''20'' @ '' '' @ ''minutes''"
    using extractTime_whole_document[of "?doc" "''prep''", THEN conjunct1, rule_format, of "''<p>''" "''prep time: 20 minutes''" "''</p>''" "''20''" "''minutes''"]
      s r n by simp
  have 2: "extractTime ?plain ''cook'' = defaultTime ''cook''"
    using extractTime_whole_document[of "?plain" "''cook''", THEN conjunct2, THEN conjunct1] h by simp
  have 3: "defaultTime ''cook'' = ''30 minutes''"
    using extractTime_whole_document[of "?plain" "''cook''"] by simp
  show ?thesis using s 1 2 3 by simp
qed

text \<open>
  Claim C8 as stated fails: the specification's pattern \<open>prep\s*time...\<close> does not match the
  document \<open>Preparation time: 20 minutes\<close>, yet the field is not the default.
\<close>

theorem extractTime_preparation_not_default:
  "\<not> specTimeMatches ''prep'' ''Preparation time: 20 minutes''
   \<and> extractTime ''Preparation time: 20 minutes'' ''prep'' = ''20 minutes''"
  by code_simp

text \<open>
  Claim C9. When the lower-cased content holds a time with a range (first word, white space,
  \<open>time\<close>, optional colon, a number, \<open>to\<close>, a second number, white space and the unit) and
  this is the leftmost time phrase of the type (no piece of the pattern's shape starts before
  it), the extracted time is the first number and the unit: the upper bound is dropped.
\<close>

theorem extractTime_range_keeps_lower_bound:
  assumes "toLowerCase text =
      pre @ first @ ws1 @ ''time'' @ colon @ ws2 @ lo @ a @ ''to'' @ b @ hi @ ws3 @ unit @ post"
    and "first \<in> firstWords timeType"
    and "noPhraseBefore (firstWords timeType) (toLowerCase text) (length pre)"
    and "ws1 \<noteq> []" "allSpace ws1" "colon = [] \<or> colon = '':''"
      "allSpace ws2" "lo \<noteq> []" "allDigits lo"
      "a \<noteq> []" "allSpace a" "b \<noteq> []" "allSpace b" "hi \<noteq> []" "allDigits hi"
      "ws3 \<noteq> []" "allSpace ws3" "unit = ''minutes'' \<or> unit = ''hours''"
  shows "extractTime text timeType = lo @ '' '' @ unit"
proof -
  let ?w = "first @ ws1 @ ''time'' @ colon @ ws2 @ lo @ (a @ ''to'' @ b @ hi) @ ws3 @ unit"
  have "rangeOK (a @ ''to'' @ b @ hi)"
    unfolding rangeOK_def using assms(10-15)
    by (intro disjI2 exI[of _ a] exI[of _ b] exI[of _ hi]) simp
  then have "timeReading (firstWords timeType) ?w lo unit"
    unfolding timeReading_def using assms(2) assms(4-9) assms(16-18)
    by (intro exI[of _ first] exI[of _ ws1] exI[of _ colon] exI[of _ ws2]
          exI[of _ "a @ ''to'' @ b @ hi"] exI[of _ ws3]) simp
  moreover have "toLowerCase text = pre @ ?w @ post" using assms(1) by simp
  ultimately show ?thesis using assms(3) by (intro extractTime_leftmost[of "text" pre "?w" post])
qed

theorem extractTime_range_keeps_lower_bound_witness:
  "extractTime ''<p>Prep time: 10 to 15 Minutes</p>'' ''prep'' = ''10 minutes''"
proof -
  let ?doc = "''<p>Prep time: 10 to 15 Minutes</p>''"
  have n: "noPhraseBefore (firstWords ''prep'') (toLowerCase ?doc) (length ''<p>'')"
  proof (rule noPhraseBefore_check)
    fix i :: nat assume "i < length ''<p>''"
    then have i: "i = 0 \<or> i = Suc 0 \<or> i = Suc (Suc 0)" by (simp add: less_Suc_eq)
    have "timeRegex ''prep'' (drop 0 (toLowerCase ?doc)) = None" by code_simp
    moreover have "timeRegex ''prep'' (drop (Suc 0) (toLowerCase ?doc)) = None" by code_simp
    moreover have "timeRegex ''prep'' (drop (Suc (Suc 0)) (toLowerCase ?doc)) = None" by code_simp
    ultimately show "timeRegex ''prep'' (drop i (toLowerCase ?doc)) = None" using i by (elim disjE) simp_all
  qed
  have "extractTime ?doc ''prep'' = ''10'' @ '' '' @ ''minutes''"
  proof (rule extractTime_range_keeps_lower_bound[where pre = "''<p>''" and first = "''prep''"
        and ?ws1.0 = "'' ''" and colon = "'':''" and ?ws2.0 = "'' ''" and a = "'' ''" and b = "'' ''"
        and hi = "''15''" and ?ws3.0 = "'' ''" and post = "''</p>''"])
    show "toLowerCase ?doc =
      ''<p>'' @ ''prep'' @ '' '' @ ''time'' @ '':'' @ '' '' @ ''10'' @ '' '' @ ''to'' @ '' '' @ ''15''
        @ '' '' @ ''minutes'' @ ''</p>''" by code_simp
    show "noPhraseBefore (firstWords ''prep'') (toLowerCase ?doc) (length ''<p>'')" by (rule n)
  qed (simp_all add: firstWords_def allSpace_def allDigits_def isSpace_def isDigit_def)
  then show ?thesis by simp
qed

subsection \<open>Failures of the chat service\<close>

text \<open>
  Claim C5, as amended. Whatever the service answers: when a call that the generator made
  (single pass or multi-part) failed, its promise being rejected or its response having no
  message to read, the generation ends with the error of that call as its result, so no
  article and no part of one is returned, and the failed call is the last call made: nothing
  is sent after it and it is not sent again.
\<close>

theorem generation_fails_fast:
  assumes "generateArticleContent openai jsonParse config keyword minWords settings [] = (result, calls)"
    and "i < length calls" and "failure (openai i (calls ! i)) = Some e"
  shows "result = Inl e \<and> Suc i = length calls"
  using failFast_generate[of openai "[]" jsonParse config keyword minWords settings] assms
  by (auto simp: failFast_def)

theorem generation_fails_fast_witness:
  "failure (failingService 1
      (snd (generateArticleContent failingService noJson exampleConfig ''banana bread'' 800
              (Some shortSettings) []) ! 1)) = Some (ApiError ''rate limit'')
   \<and> fst (generateArticleContent failingService noJson exampleConfig ''banana bread'' 800
            (Some shortSettings) []) = Inl (ApiError ''rate limit'')
   \<and> length (snd (generateArticleContent failingService noJson exampleConfig ''banana bread'' 800
          (Some shortSettings) [])) = 2"
proof -
  let ?run = "generateArticleContent failingService noJson exampleConfig ''banana bread'' 800
                (Some shortSettings) []"
  have len: "1 < length (snd ?run)" by code_simp
  have rej: "failure (failingService 1 (snd ?run ! 1)) = Some (ApiError ''rate limit'')"
    by (simp add: failingService_def)
  have "?run = (fst ?run, snd ?run)" by simp
  from generation_fails_fast[OF this len rej] rej show ?thesis by simp
qed

text \<open>
  Claim C5 as stated fails for a call that is resolved with a message without text, a
  malformed response: nothing checks the content. In the single pass the title request is
  still sent after it, and the error at the end is the \<open>TypeError\<close> of \<open>countWords\<close>; the
  multi-part generator returns an article that holds the text \<open>null\<close>.
\<close>

theorem generation_null_content_not_fatal:
  "nullService 0
      (hd (snd (generateArticleContent nullService noJson exampleConfig ''tea'' 800 None [])))
     = Resolved JNull
   \<and> length (snd (generateArticleContent nullService noJson exampleConfig ''tea'' 800 None [])) = 2
   \<and> fst (generateArticleContent nullService noJson exampleConfig ''tea'' 800 None [])
       = Inl TypeError
   \<and> fst (generateArticleContent nullService noJson exampleConfig ''tea'' 800
            (Some shortSettings) [])
       = Inr \<lparr> Title = ''Hello'',
               Content = ''null'' @ [CHR 0x0A, CHR 0x0A] @ ''Hello'' @ [CHR 0x0A, CHR 0x0A] @ ''Hello'',
               WordCount = 3, RecipeData = None \<rparr>"
  by code_simp

subsection \<open>The word count of an article\<close>

lemma counted_step:
  assumes "\<And>x c1. counted (k x c1)"
  shows "counted (case st of (Inl e, c1) \<Rightarrow> (Inl e, c1) | (Inr x, c1) \<Rightarrow> k x c1)"
  using assms by (cases st; cases "fst st") (auto simp: counted_def)

lemma counted_pure:
  assumes "\<And>x. counted (k x)"
  shows "counted (case r of Inl e \<Rightarrow> (Inl e, c1) | Inr x \<Rightarrow> k x)"
  using assms by (cases r) (auto simp: counted_def)

lemma counted_make: "counted (Inr (makeArticle title text detect keyword), calls)"
  by (simp add: counted_def makeArticle_def)

lemma counted_finish: "counted (finishArticle title content detect keyword, calls)"
  by (cases content) (simp_all add: counted_def makeArticle_def finishArticle_def)

lemma counted_multi:
  "counted (generateMultiPartArticle openai jp cfg kw n ps calls)"
  unfolding generateMultiPartArticle_def Let_def
  by (intro counted_step counted_pure counted_make)

lemma counted_generate:
  "counted (generateArticleContent openai jp cfg kw n ps calls)"
proof (cases ps)
  case None
  then show ?thesis unfolding generateArticleContent_def Let_def
    by (simp only: option.case) (intro counted_step counted_pure counted_finish)
next
  case (Some settings)
  show ?thesis
  proof (cases "useMultiPartGeneration settings")
    case True
    then show ?thesis using Some counted_multi by (simp add: generateArticleContent_def)
  next
    case False
    then show ?thesis using Some unfolding generateArticleContent_def Let_def
      by (simp only: option.case if_False) (intro counted_step counted_pure counted_finish)
  qed
qed

text \<open>
  Claim C7. The word count of every generated article is \<open>countWords\<close> of its final content,
  which is the number of places where a white-space delimited token starts; tags are not
  removed first, and the content \<open><p>Hello world</p>\<close> counts two words.
\<close>

theorem article_wordCount:
  assumes "generateArticleContent openai jsonParse config keyword minWords settings calls0
             = (Inr art, calls)"
  shows "WordCount art = countWords (Content art)
         \<and> countWords (Content art) = card (tokenStarts (Content art))
         \<and> countWords ''<p>Hello world</p>'' = 2"
proof -
  have "WordCount art = countWords (Content art)"
    using counted_generate[of openai jsonParse config keyword minWords settings calls0] assms
    by (simp add: counted_def)
  moreover have "countWords ''<p>Hello world</p>'' = 2" by code_simp
  ultimately show ?thesis by (simp add: countWords_tokenStarts)
qed

theorem article_wordCount_witness:
  "\<exists>art calls. generateArticleContent helloService noJson exampleConfig ''greeting'' 800 None []
        = (Inr art, calls)
     \<and> Content art = ''<p>Hello world</p>'' \<and> WordCount art = 2"
proof -
  let ?run = "generateArticleContent helloService noJson exampleConfig ''greeting'' 800 None []"
  have ok: "(case fst ?run of Inr art \<Rightarrow> Content art = ''<p>Hello world</p>'' | Inl e \<Rightarrow> False)"
    by code_simp
  then obtain art where art: "fst ?run = Inr art" "Content art = ''<p>Hello world</p>''"
    by (cases "fst ?run") auto
  then have run: "?run = (Inr art, snd ?run)" by (metis prod.collapse)
  from article_wordCount[OF run] art(2) have "WordCount art = 2" by simp
  then show ?thesis using run art(2) by blast
qed

subsection \<open>The publication format\<close>

lemma ensureString_string:
  "toStringJS (orEmpty v) = Inr s \<Longrightarrow> ensureString v = Inr (JStr s)"
  by (cases v) (auto simp: ensureString_def orEmpty_def split: if_splits)

lemma guarded_value:
  assumes "toStringJS (orEmpty v) = Inr s"
  shows "guarded body v = (case body (JStr s) of Inr formatted \<Rightarrow> Inr formatted
                            | Inl error \<Rightarrow> Inr s)"
  using ensureString_string[OF assms]
  by (cases "s = []") (simp_all add: guarded_def orEmpty_def split: sum.splits)

lemma primitive_toStringJS:
  "(\<forall>conversion. v \<noteq> JObj conversion) \<Longrightarrow> \<exists>s. toStringJS (orEmpty v) = Inr s"
  by (cases v) (simp_all add: orEmpty_def)

lemma formatContentForWordPress_rethrows:
  "formatContentForWordPress (JObj (Inl e)) = Inl e"
  by (simp add: formatContentForWordPress_def guarded_def ensureString_def orEmpty_def)

text \<open>
  Claim C6, as amended. For every input that \<open>String\<close> converts, and these are all the
  primitive values, the formatter does not throw, whatever the body of the \<open>try\<close> block
  does: the guard turns the input into a string (a falsy one into the empty string), the
  body then formats that string as it formats any other, and should the body throw, the
  stringified input is returned unchanged. \<open>toBlocks(42)\<close> does not throw and returns the
  paragraph block around \<open>42\<close>.
\<close>

theorem formatContentForWordPress_never_throws:
  "(\<forall>s. toStringJS (orEmpty v) = Inr s \<longrightarrow>
       formatContentForWordPress v
         = Inr (if hasHtmlTags s then formatHtml s else formatPlain s)
       \<and> (\<forall>body. \<exists>r. guarded body v = Inr r)
       \<and> (\<forall>body e. body (JStr s) = Inl e \<longrightarrow> guarded body v = Inr s))
   \<and> ((\<forall>conversion. v \<noteq> JObj conversion) \<longrightarrow> (\<exists>s. toStringJS (orEmpty v) = Inr s))
   \<and> formatContentForWordPress (JNum 42) = Inr ''<!-- wp:paragraph --><p>42</p><!-- /wp:paragraph -->''"
proof -
  have 1: "formatContentForWordPress v = Inr (if hasHtmlTags s then formatHtml s else formatPlain s)"
    if "toStringJS (orEmpty v) = Inr s" for s
    unfolding formatContentForWordPress_def guarded_value[OF that] by (simp add: formatBody_def)
  have 2: "\<exists>r. guarded body v = Inr r" if "toStringJS (orEmpty v) = Inr s" for s body
    unfolding guarded_value[OF that] by (cases "body (JStr s)") simp_all
  have 3: "guarded body v = Inr s" if "toStringJS (orEmpty v) = Inr s" "body (JStr s) = Inl e" for s body e
    unfolding guarded_value[OF that(1)] using that(2) by simp
  have 4: "formatContentForWordPress (JNum 42) = Inr ''<!-- wp:paragraph --><p>42</p><!-- /wp:paragraph -->''"
    by code_simp
  show ?thesis using 1 2 3 4 primitive_toStringJS[of v] by blast
qed

theorem formatContentForWordPress_never_throws_witness:
  "toStringJS (orEmpty (JNum 42)) = Inr ''42''
   \<and> (\<lambda>c. Inl TypeError) (JStr ''42'') = (Inl TypeError :: js_error + string)
   \<and> guarded (\<lambda>c. Inl TypeError) (JNum 42) = Inr ''42''"
proof -
  have s: "toStringJS (orEmpty (JNum 42)) = Inr ''42''" by code_simp
  have "guarded (\<lambda>c. Inl TypeError) (JNum 42) = Inr ''42''"
    using formatContentForWordPress_never_throws[of "JNum 42", THEN conjunct1, rule_format,
        OF s, THEN conjunct2, THEN conjunct2, rule_format, of "\<lambda>c. Inl TypeError" TypeError]
    by simp
  then show ?thesis using s by simp
qed

text \<open>
  Claim C6 as stated fails in its example: \<open>toBlocks(42)\<close> is not the string \<open>42\<close> but the
  paragraph block around it.
\<close>

theorem formatContentForWordPress_42_not_bare:
  "formatContentForWordPress (JNum 42) \<noteq> Inr ''42''"
  by code_simp




end
